theory Spec2Isabelle
  imports Main "HOL-Library.Multiset"
begin

section \<open>Mood-to-Memories: the entry store, the mood registry and their views\<close>

text \<open>
  A shallow embedding of \<^verbatim>\<open>script.js\<close>. The script keeps its data in module-level
  variables (\<^verbatim>\<open>entries\<close>, \<^verbatim>\<open>moodList\<close>, \<^verbatim>\<open>filterMood\<close>, \<^verbatim>\<open>filterDate\<close>, \<^verbatim>\<open>mixFeelings\<close>)
  and in \<^verbatim>\<open>localStorage\<close>; here they are the fields of one record that every function
  takes and returns. What the script renders into the page is modelled by the list of
  things it renders, in order. A string is a list of code units below 256 (a text within
  Latin-1), timestamps are integers, and
  \<^verbatim>\<open>Array.prototype.sort\<close> is stable (ECMAScript 2019). The copy of the script under
  \<^verbatim>\<open>mood-to-memories-live\<close> has the same code, comments apart, for every function
  modelled here.
\<close>

subsection \<open>Data\<close>

text \<open>An entry object \<^verbatim>\<open>{ mood, text, timestamp }\<close>; the property \<^verbatim>\<open>text\<close> is the field
  \<open>entryText\<close> (the name of the form field it is read from).\<close>

record entry =
  mood :: string
  entryText :: string
  timestamp :: int

text \<open>A mood object \<^verbatim>\<open>{ name, icon, color }\<close>.\<close>

record moodDef =
  name :: string
  icon :: string
  color :: string

record state =
  entries :: "entry list"
  moodList :: "moodDef list"
  filterMood :: "string option"
  filterDate :: "int option"
  mixFeelings :: "string \<Rightarrow> string option"
  localStorage :: "string \<Rightarrow> string option"

text \<open>
  The own properties of a \<^verbatim>\<open>freq\<close> object of \<^verbatim>\<open>updateTrending\<close> and \<^verbatim>\<open>updateWordCloud\<close>, in
  insertion order (the order of \<^verbatim>\<open>Object.entries\<close> for keys that are no array indices). A
  value is a number, or, for a key that \<^verbatim>\<open>Object.prototype\<close> has, a string:
  \<open>FunctionText k\<close> is the source text of the inherited function followed by \<open>k\<close> digits
  \<^verbatim>\<open>1\<close>.
\<close>

datatype count = Count nat | FunctionText nat

type_synonym freq = "(string \<times> count) list"

text \<open>
  What the script calls and does not define: the JSON codec (on the two shapes it is
  used on; \<open>None\<close> is a thrown \<^verbatim>\<open>SyntaxError\<close>), \<^verbatim>\<open>String.prototype.trim\<close> and
  \<^verbatim>\<open>String.prototype.toLowerCase\<close>, \<^verbatim>\<open>Date.prototype.toDateString\<close> in the local time zone
  (on the millisecond timestamp of the date), the storage quota (whether \<^verbatim>\<open>setItem\<close> of a
  key and value throws on the current storage), the reply of the text service (\<open>None\<close>
  when it gives none), and the order \<^verbatim>\<open>Array.prototype.sort\<close> leaves an array in when its
  comparator returns \<^verbatim>\<open>NaN\<close> (the order is then implementation-defined).
\<close>

record browser =
  JSON_parse_entries :: "string \<Rightarrow> entry list option"
  JSON_stringify_entries :: "entry list \<Rightarrow> string"
  JSON_parse_moods :: "string \<Rightarrow> moodDef list option"
  JSON_stringify_moods :: "moodDef list \<Rightarrow> string"
  trim :: "string \<Rightarrow> string"
  toLowerCase :: "string \<Rightarrow> string"
  toDateString :: "int \<Rightarrow> string"
  quotaExceeded :: "(string \<Rightarrow> string option) \<Rightarrow> string \<Rightarrow> string \<Rightarrow> bool"
  generateAffirmationForMoods :: "string list \<Rightarrow> string option"
  sortWithNaN :: "freq \<Rightarrow> freq"

datatype exn = QuotaExceededError

subsection \<open>Strings\<close>

text \<open>\<^verbatim>\<open>xs.join(sep)\<close>.\<close>

fun join :: "string \<Rightarrow> string list \<Rightarrow> string" where
  "join sep [] = []"
| "join sep [x] = x"
| "join sep (x # y # ys) = x @ sep @ join sep (y # ys)"

subsection \<open>Plain objects used as dictionaries\<close>

text \<open>
  \<^verbatim>\<open>updateChart\<close>, \<^verbatim>\<open>updateTrending\<close> and \<^verbatim>\<open>updateWordCloud\<close> count in an object literal
  \<^verbatim>\<open>{}\<close>, which inherits the properties of \<^verbatim>\<open>Object.prototype\<close>. Reading a key the
  object does not own gives the inherited value when there is one; \<^verbatim>\<open>__proto__\<close> is an
  accessor: it always reads as the prototype object, and assigning a number to it
  changes nothing.
\<close>

definition objectPrototypeKeys :: "string list" where
  "objectPrototypeKeys =
     [''constructor'', ''__defineGetter__'', ''__defineSetter__'', ''hasOwnProperty'',
      ''__lookupGetter__'', ''__lookupSetter__'', ''isPrototypeOf'',
      ''propertyIsEnumerable'', ''toString'', ''valueOf'', ''__proto__'',
      ''toLocaleString'']"

text \<open>The values a key of the \<^verbatim>\<open>counts\<close> object reads as: \<open>Inherited\<close> is an object or
  function of \<^verbatim>\<open>Object.prototype\<close>, which is not a number.\<close>

datatype jsval = Undefined | Number nat | NaN | Inherited

definition obj_get :: "(string \<Rightarrow> jsval option) \<Rightarrow> string \<Rightarrow> jsval" where
  "obj_get own k =
     (if k = ''__proto__'' then Inherited
      else case own k of
        Some v \<Rightarrow> v
      | None \<Rightarrow> if k \<in> set objectPrototypeKeys then Inherited else Undefined)"

definition obj_set :: "(string \<Rightarrow> jsval option) \<Rightarrow> string \<Rightarrow> jsval \<Rightarrow> (string \<Rightarrow> jsval option)" where
  "obj_set own k v = (if k = ''__proto__'' then own else own(k \<mapsto> v))"

text \<open>\<^verbatim>\<open>v++\<close> on such a value: an object or \<^verbatim>\<open>undefined\<close> converts to \<^verbatim>\<open>NaN\<close>.\<close>

fun increment :: "jsval \<Rightarrow> jsval" where
  "increment (Number n) = Number (Suc n)"
| "increment v = NaN"

text \<open>\<^verbatim>\<open>v || 0\<close>.\<close>

fun orZero :: "jsval \<Rightarrow> jsval" where
  "orZero Undefined = Number 0"
| "orZero NaN = Number 0"
| "orZero v = v"

subsection \<open>Local storage\<close>

definition setItem :: "browser \<Rightarrow> string \<Rightarrow> string \<Rightarrow> state \<Rightarrow> exn + state" where
  "setItem b k v st =
     (if quotaExceeded b (localStorage st) k v then Inl QuotaExceededError
      else Inr (st\<lparr>localStorage := (localStorage st)(k \<mapsto> v)\<rparr>))"

text \<open>A handler that mutates the state and then saves: when the save throws, the
  exception leaves the handler and the mutation stays. The views a handler redraws after
  the save only read the state (but for the calendar, which may fill \<^verbatim>\<open>mixFeelings\<close>
  once the text service answers: see \<open>updateCalendar_cell\<close>).\<close>

definition thenSave :: "state \<Rightarrow> exn + state \<Rightarrow> state \<times> exn option" where
  "thenSave st r = (case r of Inl e \<Rightarrow> (st, Some e) | Inr st' \<Rightarrow> (st', None))"

subsection \<open>Entry store\<close>

definition loadEntries :: "browser \<Rightarrow> state \<Rightarrow> state" where
  "loadEntries b st = st\<lparr>entries :=
     (case localStorage st ''m2mEntries'' of
        None \<Rightarrow> []
      | Some saved \<Rightarrow>
          if saved = [] then []
          else (case JSON_parse_entries b saved of None \<Rightarrow> [] | Some es \<Rightarrow> es))\<rparr>"

definition saveEntries :: "browser \<Rightarrow> state \<Rightarrow> exn + state" where
  "saveEntries b st = setItem b ''m2mEntries'' (JSON_stringify_entries b (entries st)) st"

text \<open>The submit handler of the entry form, on the value of the mood radio group (\<open>None\<close>
  when none is checked), the value of the text area and \<^verbatim>\<open>Date.now()\<close>.\<close>

definition entryForm_submit ::
  "browser \<Rightarrow> string option \<Rightarrow> string \<Rightarrow> int \<Rightarrow> state \<Rightarrow> state \<times> exn option" where
  "entryForm_submit b moodField entryTextField now st =
     (let text = trim b entryTextField in
      case moodField of
        None \<Rightarrow> (st, None)
      | Some m \<Rightarrow>
          if m = [] \<or> text = [] then (st, None)
          else
            let st1 = st\<lparr>entries := entries st @ [\<lparr>mood = m, entryText = text, timestamp = now\<rparr>]\<rparr>
            in thenSave st1 (saveEntries b st1))"

text \<open>\<^verbatim>\<open>entries.splice(idx, 1)\<close> at the index \<^verbatim>\<open>findIndex\<close> gives.\<close>

fun spliceFirst :: "('a \<Rightarrow> bool) \<Rightarrow> 'a list \<Rightarrow> 'a list" where
  "spliceFirst P [] = []"
| "spliceFirst P (x # xs) = (if P x then xs else x # spliceFirst P xs)"

text \<open>The click handler of the delete button of the card of an entry with timestamp \<open>ts\<close>.\<close>

definition deleteBtn_click :: "browser \<Rightarrow> int \<Rightarrow> state \<Rightarrow> state \<times> exn option" where
  "deleteBtn_click b ts st =
     (if find (\<lambda>e. timestamp e = ts) (entries st) \<noteq> None then
        let st1 = st\<lparr>entries := spliceFirst (\<lambda>e. timestamp e = ts) (entries st)\<rparr>
        in thenSave st1 (saveEntries b st1)
      else (st, None))"

datatype storeOp = Add "string option" string int | Remove int

fun applyOp :: "browser \<Rightarrow> state \<Rightarrow> storeOp \<Rightarrow> state" where
  "applyOp b st (Add m t now) = fst (entryForm_submit b m t now st)"
| "applyOp b st (Remove ts) = fst (deleteBtn_click b ts st)"

definition applyOps :: "browser \<Rightarrow> storeOp list \<Rightarrow> state \<Rightarrow> state" where
  "applyOps b ops st = foldl (applyOp b) st ops"

subsection \<open>Timeline and filters\<close>

text \<open>The two early returns of the \<^verbatim>\<open>forEach\<close> callback of \<^verbatim>\<open>renderEntries\<close>: a filter is
  tested for truthiness, and an empty string is falsy.\<close>

definition moodHidden :: "state \<Rightarrow> entry \<Rightarrow> bool" where
  "moodHidden st e =
     (case filterMood st of None \<Rightarrow> False | Some fm \<Rightarrow> fm \<noteq> [] \<and> mood e \<noteq> fm)"

definition dateHidden :: "browser \<Rightarrow> state \<Rightarrow> entry \<Rightarrow> bool" where
  "dateHidden b st e =
     (case filterDate st of
        None \<Rightarrow> False
      | Some fd \<Rightarrow> toDateString b (timestamp e) \<noteq> toDateString b fd)"

text \<open>The entries \<^verbatim>\<open>renderEntries\<close> appends a card for, top to bottom. \<^verbatim>\<open>Array.prototype.sort\<close>
  is stable; its comparator \<^verbatim>\<open>b.timestamp - a.timestamp\<close> orders by descending timestamp.\<close>

definition renderEntries :: "browser \<Rightarrow> state \<Rightarrow> entry list" where
  "renderEntries b st =
     filter (\<lambda>e. \<not> moodHidden st e \<and> \<not> dateHidden b st e)
       (sort_key (\<lambda>e. - timestamp e) (entries st))"

text \<open>The \<^verbatim>\<open>onClick\<close> of the chart, on the label of the bar that was hit.\<close>

definition chart_onClick :: "string \<Rightarrow> state \<Rightarrow> state" where
  "chart_onClick selectedMood st =
     (if filterMood st = Some selectedMood then st\<lparr>filterMood := None\<rparr>
      else st\<lparr>filterMood := Some selectedMood\<rparr>)"

text \<open>The click handler of the calendar cell of the date \<open>dateKey\<close>.\<close>

definition cell_onClick :: "browser \<Rightarrow> int \<Rightarrow> state \<Rightarrow> state" where
  "cell_onClick b dateKey st =
     (case filterDate st of
        None \<Rightarrow> st\<lparr>filterDate := Some dateKey\<rparr>
      | Some fd \<Rightarrow>
          if toDateString b fd = toDateString b dateKey then st\<lparr>filterDate := None\<rparr>
          else st\<lparr>filterDate := Some dateKey\<rparr>)"

subsection \<open>Mood counts\<close>

text \<open>The callback of \<^verbatim>\<open>entries.forEach\<close> in \<^verbatim>\<open>updateChart\<close>.\<close>

definition countEntry :: "(string \<Rightarrow> jsval option) \<Rightarrow> entry \<Rightarrow> (string \<Rightarrow> jsval option)" where
  "countEntry counts e =
     (if obj_get counts (mood e) \<noteq> Undefined
      then obj_set counts (mood e) (increment (obj_get counts (mood e)))
      else counts)"

definition updateChart_counts :: "state \<Rightarrow> (string \<Rightarrow> jsval option)" where
  "updateChart_counts st =
     foldl countEntry
       (foldl (\<lambda>counts m. obj_set counts (name m) (Number 0)) Map.empty (moodList st))
       (entries st)"

text \<open>\<^verbatim>\<open>moodChart.data.datasets[0].data\<close> after \<^verbatim>\<open>updateChart\<close>.\<close>

definition updateChart :: "state \<Rightarrow> jsval list" where
  "updateChart st = map (\<lambda>m. orZero (obj_get (updateChart_counts st) (name m))) (moodList st)"

subsection \<open>Mood registry\<close>

definition builtInMoodNames :: "string list" where
  "builtInMoodNames = [''Happy'', ''Sad'', ''Angry'', ''Excited'', ''Calm'']"

definition defaultMoodList :: "moodDef list" where
  "defaultMoodList =
     [\<lparr>name = ''Happy'', icon = ''fa-smile-beam'', color = ''#6c63ff''\<rparr>,
      \<lparr>name = ''Sad'', icon = ''fa-frown'', color = ''#f77754''\<rparr>,
      \<lparr>name = ''Angry'', icon = ''fa-angry'', color = ''#ff9a56''\<rparr>,
      \<lparr>name = ''Excited'', icon = ''fa-grin-stars'', color = ''#f0c808''\<rparr>,
      \<lparr>name = ''Calm'', icon = ''fa-spa'', color = ''#55c57a''\<rparr>]"

text \<open>The callback of the first \<^verbatim>\<open>filter\<close> of \<^verbatim>\<open>loadMoodList\<close>.\<close>

definition keepMood :: "browser \<Rightarrow> moodDef \<Rightarrow> bool" where
  "keepMood b m =
     (if name m = [] then False
      else let n = trim b (name m) in
        if n = [] then False
        else let lower = toLowerCase b n in
          if lower = ''gg'' \<or> lower = ''gg gg'' then False else True)"

text \<open>A \<^verbatim>\<open>filter\<close> whose callback keeps an element when its key is not yet in the \<^verbatim>\<open>Set\<close>
  \<open>seen\<close> and adds the key: the second \<^verbatim>\<open>filter\<close> of \<^verbatim>\<open>loadMoodList\<close> (keyed by
  \<^verbatim>\<open>m.name\<close>), and the insertion order of \<^verbatim>\<open>new Set(xs)\<close> (keyed by the element).\<close>

fun filterUnseen :: "('a \<Rightarrow> 'k) \<Rightarrow> 'k set \<Rightarrow> 'a list \<Rightarrow> 'a list" where
  "filterUnseen key seen [] = []"
| "filterUnseen key seen (x # xs) =
     (if key x \<in> seen then filterUnseen key seen xs
      else x # filterUnseen key (insert (key x) seen) xs)"

definition loadMoodList :: "browser \<Rightarrow> state \<Rightarrow> state" where
  "loadMoodList b st = st\<lparr>moodList :=
     (case (case localStorage st ''m2mMoods'' of
              None \<Rightarrow> Some defaultMoodList
            | Some saved \<Rightarrow>
                if saved = [] then Some defaultMoodList else JSON_parse_moods b saved) of
        None \<Rightarrow> []
      | Some parsed \<Rightarrow> filterUnseen name {} (filter (keepMood b) parsed))\<rparr>"

definition saveMoodList :: "browser \<Rightarrow> state \<Rightarrow> exn + state" where
  "saveMoodList b st = setItem b ''m2mMoods'' (JSON_stringify_moods b (moodList st)) st"

definition deleteMood :: "browser \<Rightarrow> string \<Rightarrow> state \<Rightarrow> state \<times> exn option" where
  "deleteMood b n st =
     (if n \<in> set builtInMoodNames then (st, None)
      else
        let st1 = st\<lparr>moodList := filter (\<lambda>m. name m \<noteq> n) (moodList st)\<rparr>
        in thenSave st1 (saveMoodList b st1))"

text \<open>\<^verbatim>\<open>existing.color = color; existing.icon = icon\<close> on the object \<^verbatim>\<open>find\<close> returned: the
  first element that satisfies the predicate is changed where it stands.\<close>

fun updateFirst :: "('a \<Rightarrow> bool) \<Rightarrow> ('a \<Rightarrow> 'a) \<Rightarrow> 'a list \<Rightarrow> 'a list" where
  "updateFirst P f [] = []"
| "updateFirst P f (x # xs) = (if P x then f x # xs else x # updateFirst P f xs)"

definition addCustomMood :: "browser \<Rightarrow> string \<Rightarrow> string \<Rightarrow> state \<Rightarrow> state \<times> exn option" where
  "addCustomMood b n c st =
     (let ic = ''fa-heart'' in
      if n = [] then (st, None)
      else
        let st1 =
          (case find (\<lambda>m. toLowerCase b (name m) = toLowerCase b n) (moodList st) of
             Some existing \<Rightarrow>
               st\<lparr>moodList := updateFirst (\<lambda>m. toLowerCase b (name m) = toLowerCase b n)
                                 (\<lambda>m. m\<lparr>color := c, icon := ic\<rparr>) (moodList st)\<rparr>
           | None \<Rightarrow> st\<lparr>moodList := moodList st @ [\<lparr>name = n, icon = ic, color = c\<rparr>]\<rparr>)
        in thenSave st1 (saveMoodList b st1))"

subsection \<open>Word frequencies\<close>

text \<open>
  \<^verbatim>\<open>s.match(/\b[a-z]{3,}\b/g)\<close>. A word boundary stands between a word character
  (\<^verbatim>\<open>[A-Za-z0-9_]\<close>) and a character that is none, or an end of the string. A match
  starts and ends at a boundary and holds lower-case letters only, so the matches are
  the maximal runs of word characters that are at least three long and all lower-case
  letters.
\<close>

definition isWordChar :: "char \<Rightarrow> bool" where
  "isWordChar c =
     (c \<in> set ''abcdefghijklmnopqrstuvwxyzABCDEFGHIJKLMNOPQRSTUVWXYZ0123456789_'')"

definition isLowerLetter :: "char \<Rightarrow> bool" where
  "isLowerLetter c = (c \<in> set ''abcdefghijklmnopqrstuvwxyz'')"

fun wordRuns :: "string \<Rightarrow> string \<Rightarrow> string list" where
  "wordRuns cur [] = (if cur = [] then [] else [cur])"
| "wordRuns cur (c # cs) =
     (if isWordChar c then wordRuns (cur @ [c]) cs
      else (if cur = [] then [] else [cur]) @ wordRuns [] cs)"

definition matchWords :: "string \<Rightarrow> string list" where
  "matchWords s = filter (\<lambda>w. 3 \<le> length w \<and> list_all isLowerLetter w) (wordRuns [] s)"

definition trendingStopwords :: "string list" where
  "trendingStopwords =
     [''the'', ''and'', ''to'', ''is'', ''it'', ''in'', ''a'', ''of'', ''on'', ''for'', ''with'',
      ''that'', ''this'', ''today'', ''i'', ''was'', ''my'', ''me'', ''at'']"

definition wordCloudStopwords :: "string list" where
  "wordCloudStopwords =
     [''the'', ''and'', ''to'', ''is'', ''it'', ''in'', ''a'', ''of'', ''on'', ''for'', ''with'',
      ''that'', ''this'', ''today'', ''i'', ''was'', ''my'', ''me'', ''at'', ''had'', ''have'',
      ''has'', ''you'', ''we'']"

text \<open>\<^verbatim>\<open>v + 1\<close> on the value a key holds: a number grows by one, a string gets the
  digit \<^verbatim>\<open>1\<close> appended.\<close>

fun plusOne :: "count \<Rightarrow> count" where
  "plusOne (Count n) = Count (Suc n)"
| "plusOne (FunctionText k) = FunctionText (Suc k)"

text \<open>\<^verbatim>\<open>freq[w] = (freq[w] || 0) + 1\<close>: an own value (never falsy) is replaced by its
  \<open>plusOne\<close>; for a key the object does not own yet the new property comes last, with
  the value \<open>fresh\<close>.\<close>

fun bump :: "string \<Rightarrow> count \<Rightarrow> freq \<Rightarrow> freq" where
  "bump w fresh [] = [(w, fresh)]"
| "bump w fresh ((k, c) # f) = (if k = w then (k, plusOne c) # f else (k, c) # bump w fresh f)"

text \<open>
  The callback of \<^verbatim>\<open>words.forEach\<close>, word by word. A key the object does not own reads
  as \<^verbatim>\<open>undefined\<close> and starts at 1, unless \<^verbatim>\<open>Object.prototype\<close> has it (\<^verbatim>\<open>constructor\<close> is
  the one a word can be): then it reads as the inherited function, and the sum is the
  text of the function with \<^verbatim>\<open>1\<close> appended. \<^verbatim>\<open>__proto__\<close> reads as the prototype object,
  and assigning a string to it changes nothing.
\<close>

fun countWords :: "string list \<Rightarrow> string list \<Rightarrow> freq \<Rightarrow> freq" where
  "countWords stopwords [] f = f"
| "countWords stopwords (w # ws) f =
     (if w \<in> set stopwords then countWords stopwords ws f
      else if w = ''__proto__'' then countWords stopwords ws f
      else countWords stopwords ws
             (bump w (if w \<in> set objectPrototypeKeys then FunctionText 1 else Count 1) f))"

fun countEntries :: "browser \<Rightarrow> string list \<Rightarrow> entry list \<Rightarrow> freq \<Rightarrow> freq" where
  "countEntries b stopwords [] f = f"
| "countEntries b stopwords (e # es) f =
     countEntries b stopwords es
       (countWords stopwords (matchWords (toLowerCase b (entryText e))) f)"

text \<open>
  \<^verbatim>\<open>Object.entries(freq).sort((a,b) => b[1] - a[1])\<close>. On numbers the comparator orders
  by descending count, and the sort is stable. On a string value the difference is
  \<^verbatim>\<open>NaN\<close>, and the order of the array is the browser's.
\<close>

fun isNumber :: "count \<Rightarrow> bool" where
  "isNumber (Count n) = True"
| "isNumber (FunctionText k) = False"

fun number :: "count \<Rightarrow> int" where
  "number (Count n) = int n"
| "number (FunctionText k) = 0"

definition byCount :: "browser \<Rightarrow> freq \<Rightarrow> freq" where
  "byCount b f =
     (if list_all (\<lambda>p. isNumber (snd p)) f then sort_key (\<lambda>p. - number (snd p)) f
      else sortWithNaN b f)"

text \<open>The words and counts \<^verbatim>\<open>updateTrending\<close> shows, in order.\<close>

definition updateTrending :: "browser \<Rightarrow> state \<Rightarrow> freq" where
  "updateTrending b st = take 5 (byCount b (countEntries b trendingStopwords (entries st) []))"

text \<open>The words \<^verbatim>\<open>updateWordCloud\<close> places in the cloud, with their counts, in order.\<close>

definition updateWordCloud :: "browser \<Rightarrow> state \<Rightarrow> freq" where
  "updateWordCloud b st = take 20 (byCount b (countEntries b wordCloudStopwords (entries st) []))"

subsection \<open>Calendar\<close>

text \<open>The text service is asked at most once per call; its reply is kept in \<^verbatim>\<open>mixFeelings\<close>
  when it is a non-empty string.\<close>

definition generateMixtureFeelingForDate ::
  "browser \<Rightarrow> string \<Rightarrow> state \<Rightarrow> string option \<times> state" where
  "generateMixtureFeelingForDate b dateString st =
     (if dateString = [] then (None, st)
      else case (case mixFeelings st dateString of
                   None \<Rightarrow> None
                 | Some cached \<Rightarrow> if cached = [] then None else Some cached) of
        Some cached \<Rightarrow> (Some cached, st)
      | None \<Rightarrow>
          let dayEntries = filter (\<lambda>e. toDateString b (timestamp e) = dateString) (entries st) in
          if length dayEntries < 4 then (None, st)
          else
            (case generateAffirmationForMoods b (map mood dayEntries) of
               None \<Rightarrow> (None, st)
             | Some feeling \<Rightarrow>
                 if feeling = [] then (None, st)
                 else (Some feeling, st\<lparr>mixFeelings := (mixFeelings st)(dateString \<mapsto> feeling)\<rparr>)))"

text \<open>What \<^verbatim>\<open>updateCalendar\<close> puts into the cell of one day: the colours of its dots, and
  the caption once the promise of the mixture feeling has resolved (\<open>None\<close> when the
  cell asks for none). \<open>uniqueMoods\<close> and \<open>dayCount\<close> are the local values of the loop
  body.\<close>

record cell =
  uniqueMoods :: "string list"
  dayCount :: nat
  dots :: "string list"
  feelingText :: "string option"

definition updateCalendar_cell :: "browser \<Rightarrow> int \<Rightarrow> state \<Rightarrow> cell \<times> state" where
  "updateCalendar_cell b dateKey st =
     (let dateString = toDateString b dateKey;
          dayMoods = map mood (filter (\<lambda>e. toDateString b (timestamp e) = dateString) (entries st));
          unique = filterUnseen (\<lambda>x. x) {} dayMoods;
          ds = concat (map (\<lambda>moodName.
                 case find (\<lambda>m. name m = moodName) (moodList st) of
                   None \<Rightarrow> []
                 | Some moodObj \<Rightarrow> [color moodObj]) (take 3 unique))
      in
        if 4 \<le> length dayMoods then
          (case generateMixtureFeelingForDate b dateString st of
             (feeling, st') \<Rightarrow>
               let phrase = (case feeling of
                               None \<Rightarrow> ''Mixed feelings: '' @ join '', '' unique
                             | Some f \<Rightarrow> f)
               in (\<lparr>uniqueMoods = unique, dayCount = length dayMoods, dots = ds,
                    feelingText = (if phrase = [] then None else Some phrase)\<rparr>, st'))
        else
          (\<lparr>uniqueMoods = unique, dayCount = length dayMoods, dots = ds,
            feelingText = None\<rparr>, st))"

subsection \<open>The invariant of the registry\<close>

text \<open>Names are unique and none is empty: \<open>loadMoodList\<close> establishes it, \<open>addCustomMood\<close>
  and \<open>deleteMood\<close> keep it (lemmas \<open>registryInv_load\<close>, \<open>registryInv_add\<close> and
  \<open>registryInv_delete\<close> below).\<close>

definition registryInv :: "moodDef list \<Rightarrow> bool" where
  "registryInv ml = (distinct (map name ml) \<and> [] \<notin> set (map name ml))"

subsection \<open>Example values\<close>

text \<open>
  An example browser, right on the values the examples use: \<^verbatim>\<open>trim\<close> and
  \<^verbatim>\<open>toLowerCase\<close> as they are on ASCII strings, \<^verbatim>\<open>JSON.stringify\<close> as it is on entry
  and mood lists whose strings hold no character that JSON escapes, \<^verbatim>\<open>JSON.parse\<close> on
  the texts of the lists the examples store, and the dates of the UTC time zone on the
  first two days of 1970. Its storage has room, its text service gives no reply, and
  its sort leaves an array with a \<^verbatim>\<open>NaN\<close> comparison as it is.
\<close>

definition toLowerCaseASCII_char :: "char \<Rightarrow> char" where
  "toLowerCaseASCII_char c =
     (case map_of (zip ''ABCDEFGHIJKLMNOPQRSTUVWXYZ'' ''abcdefghijklmnopqrstuvwxyz'') c of
        None \<Rightarrow> c
      | Some l \<Rightarrow> l)"

definition toLowerCaseASCII :: "string \<Rightarrow> string" where
  "toLowerCaseASCII s = map toLowerCaseASCII_char s"

text \<open>The ASCII white space: tab, line feed, vertical tab, form feed, carriage return and
  space.\<close>

definition isWhiteSpaceASCII :: "char \<Rightarrow> bool" where
  "isWhiteSpaceASCII c = ((of_char c :: nat) \<in> {9, 10, 11, 12, 13, 32})"

definition trimASCII :: "string \<Rightarrow> string" where
  "trimASCII s = rev (dropWhile isWhiteSpaceASCII (rev (dropWhile isWhiteSpaceASCII s)))"

function showNat :: "nat \<Rightarrow> string" where
  "showNat n =
     (if n < 10 then [''0123456789'' ! n]
      else showNat (n div 10) @ [''0123456789'' ! (n mod 10)])"
  by pat_completeness auto
termination
  by (relation "measure (\<lambda>n. n)") auto

definition showInt :: "int \<Rightarrow> string" where
  "showInt i = (if i < 0 then CHR ''-'' # showNat (nat (- i)) else showNat (nat i))"

definition quoted :: "string \<Rightarrow> string" where
  "quoted s = [CHR 0x22] @ s @ [CHR 0x22]"

definition stringifyEntries :: "entry list \<Rightarrow> string" where
  "stringifyEntries es =
     ''['' @ join '','' (map (\<lambda>e.
        ''{'' @ quoted ''mood'' @ '':'' @ quoted (mood e) @ '','' @
        quoted ''text'' @ '':'' @ quoted (entryText e) @ '','' @
        quoted ''timestamp'' @ '':'' @ showInt (timestamp e) @ ''}'') es) @ '']''"

definition stringifyMoods :: "moodDef list \<Rightarrow> string" where
  "stringifyMoods ml =
     ''['' @ join '','' (map (\<lambda>m.
        ''{'' @ quoted ''name'' @ '':'' @ quoted (name m) @ '','' @
        quoted ''icon'' @ '':'' @ quoted (icon m) @ '','' @
        quoted ''color'' @ '':'' @ quoted (color m) @ ''}'') ml) @ '']''"

definition joyMoods :: "moodDef list" where
  "joyMoods =
     [\<lparr>name = ''Joy'', icon = ''fa-heart'', color = ''#ffb74d''\<rparr>,
      \<lparr>name = ''gg'', icon = ''fa-heart'', color = ''#000000''\<rparr>,
      \<lparr>name = ''joy'', icon = ''fa-heart'', color = ''#00bcd4''\<rparr>,
      \<lparr>name = ''Joy'', icon = ''fa-star'', color = ''#e94e77''\<rparr>]"

text \<open>Four entries on the first of January 1970 (with the moods Happy, Happy, Sad and
  Calm, in storage order) and one on the second.\<close>

definition diary :: "entry list" where
  "diary =
     [\<lparr>mood = ''Happy'', entryText = ''Sunny morning run'', timestamp = 3600000\<rparr>,
      \<lparr>mood = ''Happy'', entryText = ''I have fun'', timestamp = 7200000\<rparr>,
      \<lparr>mood = ''Sad'', entryText = ''Rain again today'', timestamp = 90000000\<rparr>,
      \<lparr>mood = ''Sad'', entryText = ''Missed the bus'', timestamp = 10800000\<rparr>,
      \<lparr>mood = ''Calm'', entryText = ''Walked outside'', timestamp = 14400000\<rparr>]"

definition demoBrowser :: browser where
  "demoBrowser =
     \<lparr>JSON_parse_entries = (\<lambda>s. find (\<lambda>es. stringifyEntries es = s) [diary]),
      JSON_stringify_entries = stringifyEntries,
      JSON_parse_moods = (\<lambda>s. find (\<lambda>ml. stringifyMoods ml = s) [joyMoods, defaultMoodList]),
      JSON_stringify_moods = stringifyMoods,
      trim = trimASCII,
      toLowerCase = toLowerCaseASCII,
      toDateString = (\<lambda>t.
        if 0 \<le> t \<and> t < 86400000 then ''Thu Jan 01 1970''
        else if 86400000 \<le> t \<and> t < 172800000 then ''Fri Jan 02 1970''
        else ''Invalid Date''),
      quotaExceeded = (\<lambda>storage k v. False),
      generateAffirmationForMoods = (\<lambda>moods. None),
      sortWithNaN = (\<lambda>f. f)\<rparr>"

definition emptyState :: state where
  "emptyState =
     \<lparr>entries = [], moodList = [], filterMood = None, filterDate = None,
      mixFeelings = Map.empty, localStorage = Map.empty\<rparr>"

text \<open>The storage holds the text of \<open>joyMoods\<close>: two moods named \<^verbatim>\<open>Joy\<close>, one named
  \<^verbatim>\<open>joy\<close> and a placeholder.\<close>

definition joyState :: state where
  "joyState = emptyState\<lparr>localStorage := [''m2mMoods'' \<mapsto> stringifyMoods joyMoods]\<rparr>"

text \<open>The five built-in moods and the custom mood \<^verbatim>\<open>Joy\<close>.\<close>

definition sixMoods :: state where
  "sixMoods = emptyState\<lparr>moodList :=
     defaultMoodList @ [\<lparr>name = ''Joy'', icon = ''fa-heart'', color = ''#ffb74d''\<rparr>]\<rparr>"

text \<open>The diary with the built-in registry, and the same with the mood filter on
  \<^verbatim>\<open>Sad\<close>.\<close>

definition diaryState :: state where
  "diaryState = emptyState\<lparr>entries := diary, moodList := defaultMoodList\<rparr>"

definition sadFilter :: state where
  "sadFilter = diaryState\<lparr>filterMood := Some ''Sad''\<rparr>"

text \<open>Submissions and deletions that build the diary from the empty store.\<close>

definition diaryOps :: "storeOp list" where
  "diaryOps =
     [Add (Some ''Happy'') ''  Sunny morning run'' 3600000,
      Add (Some ''Angry'') ''Stuck in traffic'' 5400000,
      Add (Some ''Happy'') ''I have fun '' 7200000,
      Add None ''No mood picked'' 8000000,
      Add (Some ''Sad'') ''Rain again today'' 90000000,
      Remove 5400000,
      Add (Some ''Sad'') ''Missed the bus'' 10800000,
      Add (Some ''Calm'') ''Walked outside'' 14400000,
      Remove 1]"

text \<open>The diary after the user has added a custom mood named \<^verbatim>\<open>__proto__\<close>.\<close>

definition protoState :: state where
  "protoState = fst (addCustomMood demoBrowser ''__proto__'' ''#ffb74d'' diaryState)"

section \<open>The example browser\<close>

lemma demoBrowser_fields:
  "JSON_stringify_entries demoBrowser = stringifyEntries"
  "JSON_stringify_moods demoBrowser = stringifyMoods"
  "JSON_parse_entries demoBrowser (stringifyEntries diary) = Some diary"
  "JSON_parse_moods demoBrowser (stringifyMoods joyMoods) = Some joyMoods"
  "trim demoBrowser = trimASCII"
  "toLowerCase demoBrowser = toLowerCaseASCII"
  "quotaExceeded demoBrowser storage k v = False"
  "generateAffirmationForMoods demoBrowser moods = None"
  "sortWithNaN demoBrowser f = f"
  "toDateString demoBrowser t =
     (if 0 \<le> t \<and> t < 86400000 then ''Thu Jan 01 1970''
      else if 86400000 \<le> t \<and> t < 172800000 then ''Fri Jan 02 1970''
      else ''Invalid Date'')"
  by (simp_all add: demoBrowser_def)

lemma toLowerCaseASCII_examples:
  "toLowerCaseASCII ''Joy'' = ''joy''" "toLowerCaseASCII ''joy'' = ''joy''"
  "toLowerCaseASCII ''gg'' = ''gg''" "toLowerCaseASCII ''happy'' = ''happy''"
  "toLowerCaseASCII ''__proto__'' = ''__proto__''"
  "toLowerCaseASCII ''Happy'' = ''happy''" "toLowerCaseASCII ''Sad'' = ''sad''"
  "toLowerCaseASCII ''Angry'' = ''angry''" "toLowerCaseASCII ''Excited'' = ''excited''"
  "toLowerCaseASCII ''Calm'' = ''calm''"
  by code_simp+

lemma trimASCII_examples:
  "trimASCII ''Joy'' = ''Joy''" "trimASCII ''joy'' = ''joy''" "trimASCII ''gg'' = ''gg''"
  "trimASCII ''   '' = []" "trimASCII '' Walked outside '' = ''Walked outside''"
  "trimASCII ''  Sunny morning run'' = ''Sunny morning run''"
  "trimASCII ''Stuck in traffic'' = ''Stuck in traffic''"
  "trimASCII ''I have fun '' = ''I have fun''"
  "trimASCII ''Rain again today'' = ''Rain again today''"
  "trimASCII ''Missed the bus'' = ''Missed the bus''"
  "trimASCII ''Walked outside'' = ''Walked outside''"
  by code_simp+

section \<open>The mood registry\<close>

subsection \<open>Filtering with a set of seen keys\<close>

lemma filterUnseen_keys:
  "key ` set (filterUnseen key seen xs) = key ` set xs - seen"
  by (induction xs arbitrary: seen) auto

lemma filterUnseen_distinct:
  "distinct (map key (filterUnseen key seen xs))"
proof (induction xs arbitrary: seen)
  case Nil
  show ?case by simp
next
  case (Cons x xs)
  have "key x \<notin> key ` set (filterUnseen key (insert (key x) seen) xs)"
    by (simp add: filterUnseen_keys)
  with Cons show ?case by simp
qed

lemma filterUnseen_find:
  "k \<notin> seen \<Longrightarrow>
   find (\<lambda>x. key x = k) (filterUnseen key seen xs) = find (\<lambda>x. key x = k) xs"
proof (induction xs arbitrary: seen)
  case Nil
  show ?case by simp
next
  case (Cons x xs)
  show ?case
  proof (cases "key x = k")
    case True
    with Cons.prems show ?thesis by simp
  next
    case False
    with Cons show ?thesis by simp
  qed
qed

lemma filterUnseen_subset: "set (filterUnseen key seen xs) \<subseteq> set xs"
  by (induction xs arbitrary: seen) auto

lemma length_filter_key:
  "distinct (map key xs) \<Longrightarrow>
   length (filter (\<lambda>x. key x = k) xs) = (if k \<in> key ` set xs then 1 else 0)"
  by (induction xs) (auto simp: image_iff)

lemma length_filter_other_keys:
  assumes d: "distinct (map key xs)" and k: "k \<in> key ` set xs"
  shows "Suc (length (filter (\<lambda>x. key x \<noteq> k) xs)) = length xs"
proof -
  have "length xs = length (filter (\<lambda>x. key x = k) xs) + length (filter (\<lambda>x. key x \<noteq> k) xs)"
    using sum_length_filter_compl [of "\<lambda>x. key x = k" xs] by simp
  with length_filter_key [OF d, of k] k show ?thesis by simp
qed

subsection \<open>Loading\<close>

lemma loadMoodList_parsed:
  assumes "localStorage st ''m2mMoods'' = Some saved" and "saved \<noteq> []"
    and "JSON_parse_moods b saved = Some parsed"
  shows "moodList (loadMoodList b st) = filterUnseen name {} (filter (keepMood b) parsed)"
  using assms by (simp add: loadMoodList_def)

lemma loadMoodList_shape:
  "\<exists>xs. moodList (loadMoodList b st) = filterUnseen name {} (filter (keepMood b) xs)"
proof (cases "case localStorage st ''m2mMoods'' of
                None \<Rightarrow> Some defaultMoodList
              | Some saved \<Rightarrow>
                  if saved = [] then Some defaultMoodList else JSON_parse_moods b saved")
  case None
  then have "moodList (loadMoodList b st) = filterUnseen name {} (filter (keepMood b) [])"
    by (simp add: loadMoodList_def)
  then show ?thesis by blast
next
  case (Some parsed)
  then have "moodList (loadMoodList b st) = filterUnseen name {} (filter (keepMood b) parsed)"
    by (simp add: loadMoodList_def)
  then show ?thesis by blast
qed

lemma loadMoodList_distinct: "distinct (map name (moodList (loadMoodList b st)))"
  using loadMoodList_shape [of b st] by (auto simp: filterUnseen_distinct)

lemma keepMood_name: "keepMood b m \<Longrightarrow> name m \<noteq> []"
  by (auto simp: keepMood_def)

lemma loadMoodList_names_nonempty:
  assumes "m \<in> set (moodList (loadMoodList b st))"
  shows "name m \<noteq> []"
proof -
  obtain xs where "moodList (loadMoodList b st) = filterUnseen name {} (filter (keepMood b) xs)"
    using loadMoodList_shape by blast
  with assms filterUnseen_subset [of name "{}" "filter (keepMood b) xs"]
  have "keepMood b m" by auto
  then show ?thesis by (rule keepMood_name)
qed

lemma registryInv_load: "registryInv (moodList (loadMoodList b st))"
proof -
  have "[] \<notin> set (map name (moodList (loadMoodList b st)))"
  proof
    assume "[] \<in> set (map name (moodList (loadMoodList b st)))"
    then obtain m where "m \<in> set (moodList (loadMoodList b st))" "name m = []" by auto
    with loadMoodList_names_nonempty show False by blast
  qed
  then show ?thesis by (simp add: registryInv_def loadMoodList_distinct)
qed

lemma joyMoods_kept:
  "filter (keepMood demoBrowser) joyMoods =
     [\<lparr>name = ''Joy'', icon = ''fa-heart'', color = ''#ffb74d''\<rparr>,
      \<lparr>name = ''joy'', icon = ''fa-heart'', color = ''#00bcd4''\<rparr>,
      \<lparr>name = ''Joy'', icon = ''fa-star'', color = ''#e94e77''\<rparr>]"
  by (simp add: joyMoods_def keepMood_def demoBrowser_fields toLowerCaseASCII_examples
      trimASCII_examples)

lemma joyState_parsed:
  "moodList (loadMoodList demoBrowser joyState) =
     filterUnseen name {} (filter (keepMood demoBrowser) joyMoods)"
proof -
  have h1: "localStorage joyState ''m2mMoods'' = Some (stringifyMoods joyMoods)"
    by (simp add: joyState_def)
  have h2: "stringifyMoods joyMoods \<noteq> []"
    by (simp add: stringifyMoods_def)
  have h3: "JSON_parse_moods demoBrowser (stringifyMoods joyMoods) = Some joyMoods"
    by (rule demoBrowser_fields)
  show ?thesis by (rule loadMoodList_parsed [OF h1 h2 h3])
qed

text \<open>
  C1, as stated, fails: de-duplication on load compares names exactly (the \<^verbatim>\<open>Set\<close> of
  names seen so far), so the case variants \<^verbatim>\<open>Joy\<close> and \<^verbatim>\<open>joy\<close> of a persisted list are
  both loaded.
\<close>

theorem loadMoodList_keeps_case_variants:
  "map name (moodList (loadMoodList demoBrowser joyState)) = [''Joy'', ''joy''] \<and>
   toLowerCase demoBrowser ''Joy'' = toLowerCase demoBrowser ''joy''"
  by (simp add: joyState_parsed joyMoods_kept demoBrowser_fields toLowerCaseASCII_examples)

text \<open>
  C1, amended: for every persisted mood list, \<open>loadMoodList\<close> keeps at most one mood per
  exact (case-sensitive) name. The loaded registry never holds two entries with the
  same name; for every name \<open>n\<close> its entry named \<open>n\<close> is the first-listed persisted
  entry with exactly that name among those the placeholder filter keeps, and there is
  exactly one such entry when the persisted list has one and none otherwise.
\<close>

theorem loadMoodList_first_exact_name:
  assumes "localStorage st ''m2mMoods'' = Some saved" and "saved \<noteq> []"
    and "JSON_parse_moods b saved = Some parsed"
  shows "distinct (map name (moodList (loadMoodList b st))) \<and>
         find (\<lambda>m. name m = n) (moodList (loadMoodList b st)) =
           find (\<lambda>m. name m = n) (filter (keepMood b) parsed) \<and>
         length (filter (\<lambda>m. name m = n) (moodList (loadMoodList b st))) =
           (if \<exists>m \<in> set parsed. keepMood b m \<and> name m = n then 1 else 0)"
proof -
  let ?l = "moodList (loadMoodList b st)"
  have eq: "?l = filterUnseen name {} (filter (keepMood b) parsed)"
    using assms by (rule loadMoodList_parsed)
  have d: "distinct (map name ?l)" by (rule loadMoodList_distinct)
  have f: "find (\<lambda>m. name m = n) ?l = find (\<lambda>m. name m = n) (filter (keepMood b) parsed)"
    unfolding eq by (rule filterUnseen_find) simp
  have "name ` set ?l = name ` set (filter (keepMood b) parsed)"
    unfolding eq by (simp add: filterUnseen_keys)
  then have "(n \<in> name ` set ?l) = (\<exists>m \<in> set parsed. keepMood b m \<and> name m = n)"
    by auto
  with length_filter_key [OF d, of n]
  have c: "length (filter (\<lambda>m. name m = n) ?l) =
           (if \<exists>m \<in> set parsed. keepMood b m \<and> name m = n then 1 else 0)"
    by simp
  from d f c show ?thesis by blast
qed

theorem loadMoodList_first_exact_name_witness:
  "find (\<lambda>m. name m = ''Joy'') (moodList (loadMoodList demoBrowser joyState)) =
     Some \<lparr>name = ''Joy'', icon = ''fa-heart'', color = ''#ffb74d''\<rparr> \<and>
   length (filter (\<lambda>m. name m = ''Joy'') (moodList (loadMoodList demoBrowser joyState))) = 1"
proof -
  have h1: "localStorage joyState ''m2mMoods'' = Some (stringifyMoods joyMoods)"
    by (simp add: joyState_def)
  have h2: "stringifyMoods joyMoods \<noteq> []"
    by (simp add: stringifyMoods_def)
  have h3: "JSON_parse_moods demoBrowser (stringifyMoods joyMoods) = Some joyMoods"
    by (rule demoBrowser_fields)
  have "\<lparr>name = ''Joy'', icon = ''fa-heart'', color = ''#ffb74d''\<rparr>
      \<in> set (filter (keepMood demoBrowser) joyMoods)"
    by (simp add: joyMoods_kept)
  then have j: "\<exists>m \<in> set joyMoods. keepMood demoBrowser m \<and> name m = ''Joy''"
    by (simp only: set_filter) force
  from loadMoodList_first_exact_name [OF h1 h2 h3, of "''Joy''"] show ?thesis
    by (simp add: joyMoods_kept j)
qed

subsection \<open>Deleting\<close>

lemma thenSave_fst_fields:
  "moodList (fst (thenSave st1 (saveMoodList b st1))) = moodList st1"
  "entries (fst (thenSave st1 (saveMoodList b st1))) = entries st1"
  "moodList (fst (thenSave st1 (saveEntries b st1))) = moodList st1"
  "entries (fst (thenSave st1 (saveEntries b st1))) = entries st1"
  by (simp_all add: thenSave_def saveMoodList_def saveEntries_def setItem_def)

lemma deleteMood_moodList:
  "moodList (fst (deleteMood b n st)) =
     (if n \<in> set builtInMoodNames then moodList st
      else filter (\<lambda>m. name m \<noteq> n) (moodList st))"
  by (simp add: deleteMood_def Let_def thenSave_fst_fields)

lemma registryInv_delete:
  "registryInv (moodList st) \<Longrightarrow> registryInv (moodList (fst (deleteMood b n st)))"
  by (auto simp: deleteMood_moodList registryInv_def distinct_map_filter)

text \<open>
  C8: \<open>deleteMood\<close> of one of the five built-in names changes nothing (the state is
  returned as it is, so the registry keeps its size). For any other name the registry
  becomes the old one without the moods of that name, in the old order: on a registry
  (names unique) that has a mood of that name the size drops by exactly one, and on a
  registry that has none the registry stays as it is.
\<close>

theorem deleteMood_registry_size:
  "(n \<in> set builtInMoodNames \<longrightarrow> deleteMood b n st = (st, None)) \<and>
   (n \<notin> set builtInMoodNames \<longrightarrow>
      moodList (fst (deleteMood b n st)) = filter (\<lambda>m. name m \<noteq> n) (moodList st)) \<and>
   (n \<notin> set builtInMoodNames \<and> registryInv (moodList st) \<and>
    n \<in> name ` set (moodList st) \<longrightarrow>
      Suc (length (moodList (fst (deleteMood b n st)))) = length (moodList st)) \<and>
   (n \<notin> set builtInMoodNames \<and> n \<notin> name ` set (moodList st) \<longrightarrow>
      moodList (fst (deleteMood b n st)) = moodList st)"
proof -
  have a: "n \<in> set builtInMoodNames \<longrightarrow> deleteMood b n st = (st, None)"
    by (simp add: deleteMood_def)
  have b: "n \<notin> set builtInMoodNames \<longrightarrow>
      moodList (fst (deleteMood b n st)) = filter (\<lambda>m. name m \<noteq> n) (moodList st)"
    by (simp add: deleteMood_moodList)
  have c: "n \<notin> set builtInMoodNames \<and> registryInv (moodList st) \<and>
           n \<in> name ` set (moodList st) \<longrightarrow>
      Suc (length (moodList (fst (deleteMood b n st)))) = length (moodList st)"
    by (auto simp: deleteMood_moodList registryInv_def length_filter_other_keys)
  have d: "n \<notin> set builtInMoodNames \<and> n \<notin> name ` set (moodList st) \<longrightarrow>
      moodList (fst (deleteMood b n st)) = moodList st"
  proof (intro impI, elim conjE)
    assume nb: "n \<notin> set builtInMoodNames" and nn: "n \<notin> name ` set (moodList st)"
    from nn have "filter (\<lambda>m. name m \<noteq> n) (moodList st) = moodList st"
      by (auto simp: filter_id_conv)
    with nb show "moodList (fst (deleteMood b n st)) = moodList st"
      by (simp add: deleteMood_moodList)
  qed
  from a b c d show ?thesis by blast
qed

theorem deleteMood_registry_size_witness:
  "deleteMood demoBrowser ''Happy'' sixMoods = (sixMoods, None) \<and>
   length (moodList sixMoods) = 6 \<and>
   length (moodList (fst (deleteMood demoBrowser ''Joy'' sixMoods))) = 5 \<and>
   moodList (fst (deleteMood demoBrowser ''Glad'' sixMoods)) = moodList sixMoods"
proof -
  have six: "moodList sixMoods =
      defaultMoodList @ [\<lparr>name = ''Joy'', icon = ''fa-heart'', color = ''#ffb74d''\<rparr>]"
    by (simp add: sixMoods_def emptyState_def)
  have inv: "registryInv (moodList sixMoods)"
    by (simp add: six registryInv_def defaultMoodList_def)
  have names: "name ` set (moodList sixMoods) =
      {''Happy'', ''Sad'', ''Angry'', ''Excited'', ''Calm'', ''Joy''}"
    by (simp add: six defaultMoodList_def)
  have len: "length (moodList sixMoods) = 6"
    by (simp add: six defaultMoodList_def)
  have "''Happy'' \<in> set builtInMoodNames"
    by (simp add: builtInMoodNames_def)
  with deleteMood_registry_size [of "''Happy''" demoBrowser sixMoods]
  have 1: "deleteMood demoBrowser ''Happy'' sixMoods = (sixMoods, None)"
    by blast
  have "''Joy'' \<notin> set builtInMoodNames \<and> registryInv (moodList sixMoods) \<and>
        ''Joy'' \<in> name ` set (moodList sixMoods)"
    using inv by (simp add: builtInMoodNames_def names)
  with deleteMood_registry_size [of "''Joy''" demoBrowser sixMoods]
  have "Suc (length (moodList (fst (deleteMood demoBrowser ''Joy'' sixMoods)))) =
        length (moodList sixMoods)"
    by blast
  with len have 2: "length (moodList (fst (deleteMood demoBrowser ''Joy'' sixMoods))) = 5"
    by simp
  have "''Glad'' \<notin> set builtInMoodNames \<and> ''Glad'' \<notin> name ` set (moodList sixMoods)"
    by (simp add: builtInMoodNames_def names)
  with deleteMood_registry_size [of "''Glad''" demoBrowser sixMoods]
  have 3: "moodList (fst (deleteMood demoBrowser ''Glad'' sixMoods)) = moodList sixMoods"
    by blast
  from 1 len 2 3 show ?thesis by blast
qed

subsection \<open>Adding\<close>

lemma find_updateFirst:
  "find P xs = Some x \<Longrightarrow>
   \<exists>pre post. xs = pre @ x # post \<and> (\<forall>y \<in> set pre. \<not> P y) \<and> P x \<and>
      updateFirst P f xs = pre @ f x # post"
proof (induction xs)
  case Nil
  then show ?case by simp
next
  case (Cons y ys)
  show ?case
  proof (cases "P y")
    case True
    with Cons.prems have "y = x" by simp
    with True have "y # ys = [] @ x # ys \<and> (\<forall>z \<in> set []. \<not> P z) \<and> P x \<and>
        updateFirst P f (y # ys) = [] @ f x # ys" by simp
    then show ?thesis by blast
  next
    case False
    with Cons.prems have "find P ys = Some x" by simp
    from Cons.IH [OF this] obtain pre post where
      "ys = pre @ x # post" "\<forall>z \<in> set pre. \<not> P z" "P x"
      "updateFirst P f ys = pre @ f x # post"
      by blast
    with False have "y # ys = (y # pre) @ x # post \<and> (\<forall>z \<in> set (y # pre). \<not> P z) \<and> P x \<and>
        updateFirst P f (y # ys) = (y # pre) @ f x # post" by simp
    then show ?thesis by blast
  qed
qed

lemma addCustomMood_moodList:
  "n \<noteq> [] \<Longrightarrow> moodList (fst (addCustomMood b n c st)) =
     (case find (\<lambda>m. toLowerCase b (name m) = toLowerCase b n) (moodList st) of
        Some existing \<Rightarrow> updateFirst (\<lambda>m. toLowerCase b (name m) = toLowerCase b n)
                                 (\<lambda>m. m\<lparr>color := c, icon := ''fa-heart''\<rparr>) (moodList st)
      | None \<Rightarrow> moodList st @ [\<lparr>name = n, icon = ''fa-heart'', color = c\<rparr>])"
  by (simp add: addCustomMood_def Let_def thenSave_fst_fields split: option.splits)

lemma addCustomMood_storage:
  "n \<noteq> [] \<Longrightarrow> snd (addCustomMood b n c st) = None \<Longrightarrow>
   localStorage (fst (addCustomMood b n c st)) ''m2mMoods'' =
     Some (JSON_stringify_moods b (moodList (fst (addCustomMood b n c st))))"
  by (auto simp: addCustomMood_def Let_def thenSave_def saveMoodList_def setItem_def
      split: option.splits if_splits)

lemma addCustomMood_existing:
  assumes n: "n \<noteq> []"
    and ex: "find (\<lambda>m. toLowerCase b (name m) = toLowerCase b n) (moodList st) = Some existing"
  shows "\<exists>pre post.
            moodList st = pre @ existing # post \<and>
            (\<forall>m \<in> set pre. toLowerCase b (name m) \<noteq> toLowerCase b n) \<and>
            toLowerCase b (name existing) = toLowerCase b n \<and>
            moodList (fst (addCustomMood b n c st)) =
              pre @ existing\<lparr>color := c, icon := ''fa-heart''\<rparr> # post"
proof -
  let ?P = "\<lambda>m. toLowerCase b (name m) = toLowerCase b n"
  let ?f = "\<lambda>m. m\<lparr>color := c, icon := ''fa-heart''\<rparr>"
  from find_updateFirst [OF ex, of ?f] obtain pre post where
    sp: "moodList st = pre @ existing # post" "\<forall>m \<in> set pre. \<not> ?P m" "?P existing"
      "updateFirst ?P ?f (moodList st) = pre @ ?f existing # post"
    by blast
  have ml: "moodList (fst (addCustomMood b n c st)) = pre @ ?f existing # post"
    using n ex sp(4) by (simp add: addCustomMood_moodList)
  with sp(1,2,3) show ?thesis by blast
qed

lemma registryInv_add:
  assumes "registryInv (moodList st)"
  shows "registryInv (moodList (fst (addCustomMood b n c st)))"
proof (cases "n = []")
  case True
  with assms show ?thesis by (simp add: addCustomMood_def)
next
  case False
  show ?thesis
  proof (cases "find (\<lambda>m. toLowerCase b (name m) = toLowerCase b n) (moodList st)")
    case None
    then have "\<forall>m \<in> set (moodList st). name m \<noteq> n"
      by (auto simp: find_None_iff)
    with assms False None show ?thesis
      by (auto simp: addCustomMood_moodList registryInv_def)
  next
    case (Some existing)
    from addCustomMood_existing [OF False Some, of c]
    have "map name (moodList (fst (addCustomMood b n c st))) = map name (moodList st)"
      by auto
    with assms show ?thesis
      by (simp add: registryInv_def)
  qed
qed

text \<open>
  C10: when the name given to \<open>addCustomMood\<close> (a non-empty name: the function returns
  at once on an empty one, and no registry mood has an empty name) matches the name of
  an existing mood up to case, as \<^verbatim>\<open>toLowerCase\<close> folds it (\<open>existing\<close> is the first such
  mood, a built-in included), that mood is updated where it stands: its colour becomes
  the given colour and its icon the custom default \<^verbatim>\<open>fa-heart\<close>, its name and every other
  mood stay as they are, and the size of the registry does not change. Unless the
  storage is full the updated registry is what is persisted, so the original icon of a
  built-in is gone for good.
\<close>

theorem addCustomMood_upsert_in_place:
  assumes n: "n \<noteq> []"
    and ex: "find (\<lambda>m. toLowerCase b (name m) = toLowerCase b n) (moodList st) = Some existing"
  shows "(\<exists>pre post.
            moodList st = pre @ existing # post \<and>
            (\<forall>m \<in> set pre. toLowerCase b (name m) \<noteq> toLowerCase b n) \<and>
            toLowerCase b (name existing) = toLowerCase b n \<and>
            moodList (fst (addCustomMood b n c st)) =
              pre @ existing\<lparr>color := c, icon := ''fa-heart''\<rparr> # post) \<and>
         length (moodList (fst (addCustomMood b n c st))) = length (moodList st) \<and>
         map name (moodList (fst (addCustomMood b n c st))) = map name (moodList st) \<and>
         (snd (addCustomMood b n c st) = None \<longrightarrow>
            localStorage (fst (addCustomMood b n c st)) ''m2mMoods'' =
              Some (JSON_stringify_moods b (moodList (fst (addCustomMood b n c st)))))"
proof -
  have 1: "\<exists>pre post.
            moodList st = pre @ existing # post \<and>
            (\<forall>m \<in> set pre. toLowerCase b (name m) \<noteq> toLowerCase b n) \<and>
            toLowerCase b (name existing) = toLowerCase b n \<and>
            moodList (fst (addCustomMood b n c st)) =
              pre @ existing\<lparr>color := c, icon := ''fa-heart''\<rparr> # post"
    by (rule addCustomMood_existing [OF n ex])
  then obtain pre post where sp: "moodList st = pre @ existing # post"
    and ml: "moodList (fst (addCustomMood b n c st)) =
              pre @ existing\<lparr>color := c, icon := ''fa-heart''\<rparr> # post"
    by blast
  have 2: "length (moodList (fst (addCustomMood b n c st))) = length (moodList st)"
    using sp ml by simp
  have 3: "map name (moodList (fst (addCustomMood b n c st))) = map name (moodList st)"
    using sp ml by simp
  have 4: "snd (addCustomMood b n c st) = None \<longrightarrow>
            localStorage (fst (addCustomMood b n c st)) ''m2mMoods'' =
              Some (JSON_stringify_moods b (moodList (fst (addCustomMood b n c st))))"
    using n by (simp add: addCustomMood_storage)
  from 1 2 3 4 show ?thesis by blast
qed

theorem addCustomMood_upsert_in_place_witness:
  "moodList (fst (addCustomMood demoBrowser ''happy'' ''#123456'' sixMoods)) =
     \<lparr>name = ''Happy'', icon = ''fa-heart'', color = ''#123456''\<rparr> # tl (moodList sixMoods) \<and>
   hd (moodList sixMoods) = \<lparr>name = ''Happy'', icon = ''fa-smile-beam'', color = ''#6c63ff''\<rparr> \<and>
   length (moodList (fst (addCustomMood demoBrowser ''happy'' ''#123456'' sixMoods))) = 6"
proof -
  let ?happy = "\<lparr>name = ''Happy'', icon = ''fa-smile-beam'', color = ''#6c63ff''\<rparr>"
  have six: "moodList sixMoods =
      defaultMoodList @ [\<lparr>name = ''Joy'', icon = ''fa-heart'', color = ''#ffb74d''\<rparr>]"
    by (simp add: sixMoods_def emptyState_def)
  have ne: "''happy'' \<noteq> []" by simp
  have low: "toLowerCase demoBrowser ''Happy'' = toLowerCase demoBrowser ''happy''"
    by (simp add: demoBrowser_fields toLowerCaseASCII_examples)
  have ex: "find (\<lambda>m. toLowerCase demoBrowser (name m) = toLowerCase demoBrowser ''happy'')
      (moodList sixMoods) = Some ?happy"
    by (simp add: six defaultMoodList_def low)
  note inst = addCustomMood_upsert_in_place [OF ne ex, of "''#123456''"]
  from inst obtain pre post where
    a: "moodList sixMoods = pre @ ?happy # post"
    and b: "\<forall>m \<in> set pre. toLowerCase demoBrowser (name m) \<noteq> toLowerCase demoBrowser ''happy''"
    and c: "moodList (fst (addCustomMood demoBrowser ''happy'' ''#123456'' sixMoods)) =
              pre @ ?happy\<lparr>color := ''#123456'', icon := ''fa-heart''\<rparr> # post"
    by blast
  have pre: "pre = []"
  proof (cases pre)
    case Nil
    then show ?thesis .
  next
    case (Cons x xs)
    with a have "x = ?happy" by (simp add: six defaultMoodList_def)
    with b Cons low show ?thesis by simp
  qed
  with a have post: "post = tl (moodList sixMoods)" and h: "hd (moodList sixMoods) = ?happy"
    by simp_all
  from inst have "length (moodList (fst (addCustomMood demoBrowser ''happy'' ''#123456'' sixMoods))) =
      length (moodList sixMoods)"
    by blast
  then have l: "length (moodList (fst (addCustomMood demoBrowser ''happy'' ''#123456'' sixMoods))) = 6"
    by (simp add: six defaultMoodList_def)
  from c pre post h l show ?thesis by simp
qed

section \<open>The entry store\<close>

lemma entryForm_submit_entries:
  "entries (fst (entryForm_submit b moodField entryTextField now st)) =
     (case moodField of
        None \<Rightarrow> entries st
      | Some m \<Rightarrow>
          if m = [] \<or> trim b entryTextField = [] then entries st
          else entries st @ [\<lparr>mood = m, entryText = trim b entryTextField, timestamp = now\<rparr>])"
  by (simp add: entryForm_submit_def Let_def thenSave_fst_fields split: option.splits)

lemma spliceFirst_none: "\<forall>x \<in> set xs. \<not> P x \<Longrightarrow> spliceFirst P xs = xs"
  by (induction xs) auto

lemma deleteBtn_click_entries:
  "entries (fst (deleteBtn_click b ts st)) = spliceFirst (\<lambda>e. timestamp e = ts) (entries st)"
proof (cases "find (\<lambda>e. timestamp e = ts) (entries st)")
  case None
  then have "\<forall>e \<in> set (entries st). timestamp e \<noteq> ts"
    by (simp add: find_None_iff)
  then have "spliceFirst (\<lambda>e. timestamp e = ts) (entries st) = entries st"
    by (rule spliceFirst_none)
  with None show ?thesis by (simp add: deleteBtn_click_def)
next
  case (Some e)
  then show ?thesis by (simp add: deleteBtn_click_def Let_def thenSave_fst_fields)
qed

text \<open>
  C9: a submission whose mood is missing (no radio checked, or an empty value) or whose
  text is empty after trimming is discarded: the handler returns the state as it is
  (entries and storage included) and raises nothing. A submission with a non-empty
  mood and a non-empty trimmed text appends exactly one entry, with that mood, the
  trimmed text and the current time, after the entries that were there.
\<close>

theorem entryForm_submit_validation:
  "(moodField = None \<or> moodField = Some [] \<or> trim b entryTextField = [] \<longrightarrow>
      entryForm_submit b moodField entryTextField now st = (st, None)) \<and>
   (\<forall>m. moodField = Some m \<and> m \<noteq> [] \<and> trim b entryTextField \<noteq> [] \<longrightarrow>
      entries (fst (entryForm_submit b moodField entryTextField now st)) =
        entries st @ [\<lparr>mood = m, entryText = trim b entryTextField, timestamp = now\<rparr>] \<and>
      length (entries (fst (entryForm_submit b moodField entryTextField now st))) =
        Suc (length (entries st)))"
proof -
  have a: "moodField = None \<or> moodField = Some [] \<or> trim b entryTextField = [] \<longrightarrow>
      entryForm_submit b moodField entryTextField now st = (st, None)"
    by (auto simp: entryForm_submit_def Let_def split: option.splits)
  have b: "\<forall>m. moodField = Some m \<and> m \<noteq> [] \<and> trim b entryTextField \<noteq> [] \<longrightarrow>
      entries (fst (entryForm_submit b moodField entryTextField now st)) =
        entries st @ [\<lparr>mood = m, entryText = trim b entryTextField, timestamp = now\<rparr>] \<and>
      length (entries (fst (entryForm_submit b moodField entryTextField now st))) =
        Suc (length (entries st))"
    by (simp add: entryForm_submit_entries)
  from a b show ?thesis by blast
qed

lemma trim_examples:
  "trim demoBrowser ''   '' = []" "trim demoBrowser '' Walked outside '' = ''Walked outside''"
  by (simp_all add: demoBrowser_fields trimASCII_examples)

theorem entryForm_submit_validation_witness:
  "entryForm_submit demoBrowser None ''Walked outside'' 5 diaryState = (diaryState, None) \<and>
   entryForm_submit demoBrowser (Some ''Calm'') ''   '' 5 diaryState = (diaryState, None) \<and>
   entries (fst (entryForm_submit demoBrowser (Some ''Calm'') '' Walked outside '' 5 diaryState)) =
     entries diaryState @ [\<lparr>mood = ''Calm'', entryText = ''Walked outside'', timestamp = 5\<rparr>]"
proof -
  from entryForm_submit_validation [where moodField = None and entryTextField = "''Walked outside''"
      and b = demoBrowser and now = 5 and st = diaryState]
  have 1: "entryForm_submit demoBrowser None ''Walked outside'' 5 diaryState = (diaryState, None)"
    by blast
  have "trim demoBrowser ''   '' = []" by (rule trim_examples)
  with entryForm_submit_validation [where moodField = "Some ''Calm''" and entryTextField = "''   ''"
      and b = demoBrowser and now = 5 and st = diaryState]
  have 2: "entryForm_submit demoBrowser (Some ''Calm'') ''   '' 5 diaryState = (diaryState, None)"
    by blast
  have "Some ''Calm'' = Some ''Calm'' \<and> ''Calm'' \<noteq> [] \<and> trim demoBrowser '' Walked outside '' \<noteq> []"
    by (simp add: trim_examples)
  with entryForm_submit_validation [where moodField = "Some ''Calm''"
      and entryTextField = "'' Walked outside ''" and b = demoBrowser and now = 5 and st = diaryState]
  have "entries (fst (entryForm_submit demoBrowser (Some ''Calm'') '' Walked outside '' 5 diaryState)) =
     entries diaryState @
       [\<lparr>mood = ''Calm'', entryText = trim demoBrowser '' Walked outside '', timestamp = 5\<rparr>]"
    by blast
  then have 3: "entries (fst (entryForm_submit demoBrowser (Some ''Calm'') '' Walked outside '' 5 diaryState)) =
     entries diaryState @ [\<lparr>mood = ''Calm'', entryText = ''Walked outside'', timestamp = 5\<rparr>]"
    by (simp add: trim_examples)
  from 1 2 3 show ?thesis by blast
qed

text \<open>
  C4: after any sequence of submissions and deletions, a \<open>saveEntries\<close> that returns
  followed by \<open>loadEntries\<close> gives back the collection held before the save (the same
  list, so the same set). The load runs on any state \<open>fresh\<close> that shares only the storage
  with the state the save returned, such as the state of a reloaded page, whose
  collection is empty: what it yields comes from the storage alone. \<^verbatim>\<open>JSON.parse\<close> is
  taken to read what \<^verbatim>\<open>JSON.stringify\<close> wrote for that collection; the save does not
  return when the storage refuses the write.
\<close>

theorem save_then_load_restores_entries:
  assumes "saveEntries b (applyOps b ops st) = Inr st'"
    and "JSON_stringify_entries b (entries (applyOps b ops st)) \<noteq> []"
    and "JSON_parse_entries b (JSON_stringify_entries b (entries (applyOps b ops st))) =
           Some (entries (applyOps b ops st))"
    and "localStorage fresh = localStorage st'"
  shows "entries (loadEntries b fresh) = entries (applyOps b ops st) \<and>
         set (entries (loadEntries b fresh)) = set (entries (applyOps b ops st))"
proof -
  let ?s = "applyOps b ops st"
  from assms(1) have "st' = ?s\<lparr>localStorage :=
      (localStorage ?s)(''m2mEntries'' \<mapsto> JSON_stringify_entries b (entries ?s))\<rparr>"
    by (simp add: saveEntries_def setItem_def split: if_splits)
  then have "localStorage st' ''m2mEntries'' = Some (JSON_stringify_entries b (entries ?s))"
    by simp
  with assms(4) have "localStorage fresh ''m2mEntries'' =
      Some (JSON_stringify_entries b (entries ?s))"
    by simp
  with assms(2,3) have "entries (loadEntries b fresh) = entries ?s"
    by (simp add: loadEntries_def)
  then show ?thesis by simp
qed

lemma diaryOps_entries: "entries (applyOps demoBrowser diaryOps emptyState) = diary"
  by (simp add: applyOps_def diaryOps_def emptyState_def diary_def demoBrowser_fields
      trimASCII_examples entryForm_submit_entries deleteBtn_click_entries)

theorem save_then_load_restores_entries_witness:
  "(\<exists>st'. saveEntries demoBrowser (applyOps demoBrowser diaryOps emptyState) = Inr st' \<and>
          entries (emptyState\<lparr>localStorage := localStorage st'\<rparr>) = [] \<and>
          entries (loadEntries demoBrowser (emptyState\<lparr>localStorage := localStorage st'\<rparr>)) =
            diary) \<and>
   entries (applyOps demoBrowser diaryOps emptyState) = diary"
proof -
  let ?s = "applyOps demoBrowser diaryOps emptyState"
  let ?st' = "?s\<lparr>localStorage := (localStorage ?s)(''m2mEntries'' \<mapsto> stringifyEntries diary)\<rparr>"
  let ?fresh = "emptyState\<lparr>localStorage := localStorage ?st'\<rparr>"
  have s: "saveEntries demoBrowser ?s = Inr ?st'"
    by (simp add: saveEntries_def setItem_def demoBrowser_fields diaryOps_entries)
  have ne: "JSON_stringify_entries demoBrowser (entries ?s) \<noteq> []"
    by (simp add: demoBrowser_fields stringifyEntries_def)
  have rt: "JSON_parse_entries demoBrowser (JSON_stringify_entries demoBrowser (entries ?s)) =
      Some (entries ?s)"
    by (simp add: demoBrowser_fields diaryOps_entries)
  have ls: "localStorage ?fresh = localStorage ?st'"
    by simp
  have e: "entries ?fresh = []"
    by (simp add: emptyState_def)
  from save_then_load_restores_entries [OF s ne rt ls]
  have "entries (loadEntries demoBrowser ?fresh) = diary"
    by (simp only: diaryOps_entries)
  with s e diaryOps_entries show ?thesis by blast
qed
section \<open>The filtered timeline\<close>

lemma renderEntries_sorted:
  "sorted_wrt (\<lambda>x y. timestamp y \<le> timestamp x) (renderEntries b st)"
proof -
  have "sorted (map (\<lambda>e. - timestamp e) (sort_key (\<lambda>e. - timestamp e) (entries st)))"
    by (rule sorted_sort_key)
  then have "sorted (map (\<lambda>e. - timestamp e) (renderEntries b st))"
    unfolding renderEntries_def by (rule sorted_filter)
  then show ?thesis by (simp add: sorted_map)
qed

lemma renderEntries_mset:
  "mset (renderEntries b st) =
     filter_mset (\<lambda>e. \<not> moodHidden st e \<and> \<not> dateHidden b st e) (mset (entries st))"
  by (simp add: renderEntries_def)

lemma renderEntries_stable:
  "filter (\<lambda>e. timestamp e = t) (renderEntries b st) =
   filter (\<lambda>e. timestamp e = t)
     (filter (\<lambda>e. \<not> moodHidden st e \<and> \<not> dateHidden b st e) (entries st))"
proof -
  let ?p = "\<lambda>e. \<not> moodHidden st e \<and> \<not> dateHidden b st e"
  have "filter (\<lambda>e. - timestamp e = - t) (sort_key (\<lambda>e. - timestamp e) (filter ?p (entries st))) =
        filter (\<lambda>e. - timestamp e = - t) (filter ?p (entries st))"
    by (rule sort_key_stable)
  then show ?thesis by (simp add: renderEntries_def filter_sort)
qed

text \<open>
  C5: the timeline is in descending order of timestamp (entries with equal timestamps
  keep their storage order) and holds, as often as the store does, exactly the entries
  that pass both filters: under a mood filter (a non-empty mood name; the script tests
  the variable for truthiness) the entries whose mood is that name, under a date filter
  the entries whose timestamp has the date string of the filter date. An absent filter
  excludes nothing, so with both absent the timeline holds every entry.
\<close>

theorem renderEntries_filtered_timeline:
  "sorted_wrt (\<lambda>x y. timestamp y \<le> timestamp x) (renderEntries b st) \<and>
   mset (renderEntries b st) =
     filter_mset
       (\<lambda>e. (\<forall>fm. filterMood st = Some fm \<and> fm \<noteq> [] \<longrightarrow> mood e = fm) \<and>
            (\<forall>fd. filterDate st = Some fd \<longrightarrow>
                 toDateString b (timestamp e) = toDateString b fd))
       (mset (entries st)) \<and>
   (\<forall>t. filter (\<lambda>e. timestamp e = t) (renderEntries b st) =
        filter (\<lambda>e. timestamp e = t)
          (filter (\<lambda>e. \<not> moodHidden st e \<and> \<not> dateHidden b st e) (entries st))) \<and>
   (filterMood st = None \<and> filterDate st = None \<longrightarrow>
      mset (renderEntries b st) = mset (entries st))"
proof -
  have p: "(\<not> moodHidden st e \<and> \<not> dateHidden b st e) =
      ((\<forall>fm. filterMood st = Some fm \<and> fm \<noteq> [] \<longrightarrow> mood e = fm) \<and>
       (\<forall>fd. filterDate st = Some fd \<longrightarrow>
          toDateString b (timestamp e) = toDateString b fd))" for e
    by (auto simp: moodHidden_def dateHidden_def split: option.splits)
  have 1: "sorted_wrt (\<lambda>x y. timestamp y \<le> timestamp x) (renderEntries b st)"
    by (rule renderEntries_sorted)
  have 2: "mset (renderEntries b st) =
     filter_mset
       (\<lambda>e. (\<forall>fm. filterMood st = Some fm \<and> fm \<noteq> [] \<longrightarrow> mood e = fm) \<and>
            (\<forall>fd. filterDate st = Some fd \<longrightarrow>
                 toDateString b (timestamp e) = toDateString b fd))
       (mset (entries st))"
    by (simp add: renderEntries_mset p)
  have 3: "\<forall>t. filter (\<lambda>e. timestamp e = t) (renderEntries b st) =
        filter (\<lambda>e. timestamp e = t)
          (filter (\<lambda>e. \<not> moodHidden st e \<and> \<not> dateHidden b st e) (entries st))"
    by (simp add: renderEntries_stable)
  have 4: "filterMood st = None \<and> filterDate st = None \<longrightarrow>
      mset (renderEntries b st) = mset (entries st)"
    by (simp add: renderEntries_mset moodHidden_def dateHidden_def)
  from 1 2 3 4 show ?thesis by blast
qed

lemma diary_sorted:
  "sort_key (\<lambda>e. - timestamp e) diary =
     [\<lparr>mood = ''Sad'', entryText = ''Rain again today'', timestamp = 90000000\<rparr>,
      \<lparr>mood = ''Calm'', entryText = ''Walked outside'', timestamp = 14400000\<rparr>,
      \<lparr>mood = ''Sad'', entryText = ''Missed the bus'', timestamp = 10800000\<rparr>,
      \<lparr>mood = ''Happy'', entryText = ''I have fun'', timestamp = 7200000\<rparr>,
      \<lparr>mood = ''Happy'', entryText = ''Sunny morning run'', timestamp = 3600000\<rparr>]"
  by (simp add: diary_def)

lemma diaryState_fields:
  "entries diaryState = diary" "moodList diaryState = defaultMoodList"
  "filterMood diaryState = None" "filterDate diaryState = None"
  "entries sadFilter = diary" "moodList sadFilter = defaultMoodList"
  "filterMood sadFilter = Some ''Sad''" "filterDate sadFilter = None"
  by (simp_all add: diaryState_def sadFilter_def emptyState_def)

lemma renderEntries_sadFilter:
  "renderEntries demoBrowser sadFilter =
     [\<lparr>mood = ''Sad'', entryText = ''Rain again today'', timestamp = 90000000\<rparr>,
      \<lparr>mood = ''Sad'', entryText = ''Missed the bus'', timestamp = 10800000\<rparr>]"
  by (simp add: renderEntries_def diaryState_fields diary_sorted moodHidden_def dateHidden_def)

lemma renderEntries_diaryState:
  "renderEntries demoBrowser diaryState = sort_key (\<lambda>e. - timestamp e) diary"
  by (simp add: renderEntries_def diaryState_fields moodHidden_def dateHidden_def)

theorem renderEntries_filtered_timeline_witness:
  "sorted_wrt (\<lambda>x y. timestamp y \<le> timestamp x) (renderEntries demoBrowser sadFilter) \<and>
   renderEntries demoBrowser sadFilter =
     [\<lparr>mood = ''Sad'', entryText = ''Rain again today'', timestamp = 90000000\<rparr>,
      \<lparr>mood = ''Sad'', entryText = ''Missed the bus'', timestamp = 10800000\<rparr>] \<and>
   mset (renderEntries demoBrowser diaryState) = mset diary"
proof -
  from renderEntries_filtered_timeline [of demoBrowser sadFilter]
  have 1: "sorted_wrt (\<lambda>x y. timestamp y \<le> timestamp x) (renderEntries demoBrowser sadFilter)"
    by blast
  have "filterMood diaryState = None \<and> filterDate diaryState = None"
    by (simp add: diaryState_fields)
  with renderEntries_filtered_timeline [of demoBrowser diaryState]
  have "mset (renderEntries demoBrowser diaryState) = mset (entries diaryState)"
    by blast
  then have 2: "mset (renderEntries demoBrowser diaryState) = mset diary"
    by (simp add: diaryState_fields)
  from 1 2 renderEntries_sadFilter show ?thesis by blast
qed

subsection \<open>Toggling the filters\<close>

lemma renderEntries_cong:
  assumes "entries s = entries s'" and "filterMood s = filterMood s'"
    and "map_option (toDateString b) (filterDate s) = map_option (toDateString b) (filterDate s')"
  shows "renderEntries b s = renderEntries b s'"
proof -
  have "dateHidden b s e = dateHidden b s' e" for e
    using assms(3) by (auto simp: dateHidden_def split: option.splits)
  moreover have "moodHidden s e = moodHidden s' e" for e
    using assms(2) by (simp add: moodHidden_def)
  ultimately show ?thesis using assms(1) by (simp add: renderEntries_def)
qed

text \<open>
  C7, as stated, fails: with the mood filter on \<^verbatim>\<open>Sad\<close>, two clicks on the bar of
  \<^verbatim>\<open>Happy\<close> leave the filter absent, and the timeline then shows every entry instead of
  the two sad ones.
\<close>

theorem chart_onClick_twice_clears_other_filter:
  "filterMood sadFilter = Some ''Sad'' \<and>
   filterMood (chart_onClick ''Happy'' sadFilter) = Some ''Happy'' \<and>
   filterMood (chart_onClick ''Happy'' (chart_onClick ''Happy'' sadFilter)) = None \<and>
   length (renderEntries demoBrowser sadFilter) = 2 \<and>
   length (renderEntries demoBrowser (chart_onClick ''Happy'' (chart_onClick ''Happy'' sadFilter))) = 5"
proof -
  have "renderEntries demoBrowser (chart_onClick ''Happy'' (chart_onClick ''Happy'' sadFilter)) =
      renderEntries demoBrowser diaryState"
    by (rule renderEntries_cong) (simp_all add: chart_onClick_def diaryState_fields)
  then show ?thesis
    by (simp add: renderEntries_sadFilter renderEntries_diaryState diary_sorted
        diaryState_fields chart_onClick_def)
qed

text \<open>
  C7, amended: a click on a target sets its filter to the value of the target, unless
  the filter already has that value (for a calendar cell: a date with the same date
  string), in which case the click clears it. Two clicks in a row on the same target
  restore the filter state, and so the timeline, when the filter was absent before the
  first click (set, then cleared) or already had the value of the target (cleared, then
  set again; for a cell the filter date is then the date of the cell, which has the same
  date string, and the timeline is the same). When the filter held a different value,
  the first click replaces it and the second clears it: the filter ends absent.
  Nothing but the filter of the target changes.
\<close>

theorem click_twice_toggle:
  "(filterMood st = None \<or> filterMood st = Some t \<longrightarrow>
      chart_onClick t (chart_onClick t st) = st \<and>
      renderEntries b (chart_onClick t (chart_onClick t st)) = renderEntries b st) \<and>
   (filterMood st = None \<longrightarrow> filterMood (chart_onClick t st) = Some t) \<and>
   (filterMood st = Some t \<longrightarrow> filterMood (chart_onClick t st) = None) \<and>
   (\<forall>u. filterMood st = Some u \<and> u \<noteq> t \<longrightarrow>
      filterMood (chart_onClick t st) = Some t \<and>
      chart_onClick t (chart_onClick t st) = st\<lparr>filterMood := None\<rparr>) \<and>
   (filterDate st = None \<longrightarrow>
      filterDate (cell_onClick b k st) = Some k \<and>
      cell_onClick b k (cell_onClick b k st) = st) \<and>
   (\<forall>fd. filterDate st = Some fd \<and> toDateString b fd = toDateString b k \<longrightarrow>
      filterDate (cell_onClick b k st) = None \<and>
      cell_onClick b k (cell_onClick b k st) = st\<lparr>filterDate := Some k\<rparr> \<and>
      renderEntries b (cell_onClick b k (cell_onClick b k st)) = renderEntries b st) \<and>
   (\<forall>fd. filterDate st = Some fd \<and> toDateString b fd \<noteq> toDateString b k \<longrightarrow>
      filterDate (cell_onClick b k st) = Some k \<and>
      cell_onClick b k (cell_onClick b k st) = st\<lparr>filterDate := None\<rparr>)"
proof -
  have 1: "filterMood st = None \<or> filterMood st = Some t \<longrightarrow>
      chart_onClick t (chart_onClick t st) = st \<and>
      renderEntries b (chart_onClick t (chart_onClick t st)) = renderEntries b st"
  proof
    assume a: "filterMood st = None \<or> filterMood st = Some t"
    have "chart_onClick t (chart_onClick t st) = st\<lparr>filterMood := filterMood st\<rparr>"
      using a by (auto simp: chart_onClick_def)
    then have "chart_onClick t (chart_onClick t st) = st" by simp
    then show "chart_onClick t (chart_onClick t st) = st \<and>
      renderEntries b (chart_onClick t (chart_onClick t st)) = renderEntries b st"
      by simp
  qed
  have 2: "filterMood st = None \<longrightarrow> filterMood (chart_onClick t st) = Some t"
    by (simp add: chart_onClick_def)
  have 3: "filterMood st = Some t \<longrightarrow> filterMood (chart_onClick t st) = None"
    by (simp add: chart_onClick_def)
  have 4: "\<forall>u. filterMood st = Some u \<and> u \<noteq> t \<longrightarrow>
      filterMood (chart_onClick t st) = Some t \<and>
      chart_onClick t (chart_onClick t st) = st\<lparr>filterMood := None\<rparr>"
    by (simp add: chart_onClick_def)
  have 5: "filterDate st = None \<longrightarrow>
      filterDate (cell_onClick b k st) = Some k \<and>
      cell_onClick b k (cell_onClick b k st) = st"
  proof
    assume a: "filterDate st = None"
    then have "cell_onClick b k (cell_onClick b k st) = st\<lparr>filterDate := filterDate st\<rparr>"
      by (simp add: cell_onClick_def)
    then have "cell_onClick b k (cell_onClick b k st) = st" by simp
    with a show "filterDate (cell_onClick b k st) = Some k \<and>
      cell_onClick b k (cell_onClick b k st) = st"
      by (simp add: cell_onClick_def)
  qed
  have 6: "\<forall>fd. filterDate st = Some fd \<and> toDateString b fd = toDateString b k \<longrightarrow>
      filterDate (cell_onClick b k st) = None \<and>
      cell_onClick b k (cell_onClick b k st) = st\<lparr>filterDate := Some k\<rparr> \<and>
      renderEntries b (cell_onClick b k (cell_onClick b k st)) = renderEntries b st"
  proof (intro allI impI, elim conjE)
    fix fd
    assume a: "filterDate st = Some fd" and d: "toDateString b fd = toDateString b k"
    have x: "filterDate (cell_onClick b k st) = None"
      using a d by (simp add: cell_onClick_def)
    have y: "cell_onClick b k (cell_onClick b k st) = st\<lparr>filterDate := Some k\<rparr>"
      using a d by (simp add: cell_onClick_def)
    have "renderEntries b (st\<lparr>filterDate := Some k\<rparr>) = renderEntries b st"
      by (rule renderEntries_cong) (simp_all add: a d)
    with x y show "filterDate (cell_onClick b k st) = None \<and>
      cell_onClick b k (cell_onClick b k st) = st\<lparr>filterDate := Some k\<rparr> \<and>
      renderEntries b (cell_onClick b k (cell_onClick b k st)) = renderEntries b st"
      by simp
  qed
  have 7: "\<forall>fd. filterDate st = Some fd \<and> toDateString b fd \<noteq> toDateString b k \<longrightarrow>
      filterDate (cell_onClick b k st) = Some k \<and>
      cell_onClick b k (cell_onClick b k st) = st\<lparr>filterDate := None\<rparr>"
    by (simp add: cell_onClick_def)
  from 1 2 3 4 5 6 7 show ?thesis by blast
qed

theorem click_twice_toggle_witness:
  "chart_onClick ''Sad'' (chart_onClick ''Sad'' diaryState) = diaryState \<and>
   chart_onClick ''Sad'' (chart_onClick ''Sad'' sadFilter) = sadFilter \<and>
   filterMood (chart_onClick ''Sad'' diaryState) = Some ''Sad'' \<and>
   filterMood (chart_onClick ''Sad'' sadFilter) = None \<and>
   cell_onClick demoBrowser 86400000 (cell_onClick demoBrowser 86400000 diaryState) = diaryState \<and>
   filterDate (cell_onClick demoBrowser 86400000 diaryState) = Some 86400000"
proof -
  have n: "filterMood diaryState = None" and d: "filterDate diaryState = None"
    and s: "filterMood sadFilter = Some ''Sad''"
    by (simp_all add: diaryState_fields)
  from click_twice_toggle [of diaryState "''Sad''" demoBrowser 86400000] n d
  have 1: "chart_onClick ''Sad'' (chart_onClick ''Sad'' diaryState) = diaryState"
    and 2: "filterMood (chart_onClick ''Sad'' diaryState) = Some ''Sad''"
    and 3: "cell_onClick demoBrowser 86400000 (cell_onClick demoBrowser 86400000 diaryState) =
        diaryState"
    and 4: "filterDate (cell_onClick demoBrowser 86400000 diaryState) = Some 86400000"
    by blast+
  from click_twice_toggle [of sadFilter "''Sad''" demoBrowser 86400000] s
  have 5: "chart_onClick ''Sad'' (chart_onClick ''Sad'' sadFilter) = sadFilter"
    and 6: "filterMood (chart_onClick ''Sad'' sadFilter) = None"
    by blast+
  from 1 2 3 4 5 6 show ?thesis by blast
qed

section \<open>Mood counts\<close>

lemma counts_init:
  "foldl (\<lambda>counts m. obj_set counts (name m) (Number 0)) c ml k =
     (if k \<in> name ` set ml \<and> k \<noteq> ''__proto__'' then Some (Number 0) else c k)"
  by (induction ml arbitrary: c) (auto simp: obj_set_def)

lemma counts_entries:
  assumes "k \<noteq> ''__proto__''" and "c k = Some (Number n)"
  shows "foldl countEntry c es k = Some (Number (n + length (filter (\<lambda>e. mood e = k) es)))"
  using assms
proof (induction es arbitrary: c n)
  case Nil
  then show ?case by simp
next
  case (Cons e es)
  show ?case
  proof (cases "mood e = k")
    case True
    with Cons.prems have "countEntry c e k = Some (Number (Suc n))"
      by (simp add: countEntry_def obj_get_def obj_set_def)
    with Cons.IH [of "countEntry c e" "Suc n"] Cons.prems(1) True show ?thesis by simp
  next
    case False
    with Cons.prems have "countEntry c e k = Some (Number n)"
      by (simp add: countEntry_def obj_set_def)
    with Cons.IH [of "countEntry c e" n] Cons.prems(1) False show ?thesis by simp
  qed
qed

text \<open>The value the chart gets for a mood: the number of entries with the name of the
  mood, unless the name is \<^verbatim>\<open>__proto__\<close>.\<close>

lemma updateChart_values:
  "updateChart st =
     map (\<lambda>m. if name m = ''__proto__'' then Inherited
              else Number (length (filter (\<lambda>e. mood e = name m) (entries st))))
       (moodList st)"
proof -
  have "orZero (obj_get (updateChart_counts st) (name m)) =
      (if name m = ''__proto__'' then Inherited
       else Number (length (filter (\<lambda>e. mood e = name m) (entries st))))"
    if m: "m \<in> set (moodList st)" for m
  proof (cases "name m = ''__proto__''")
    case True
    then show ?thesis by (simp add: obj_get_def)
  next
    case False
    from m False have "foldl (\<lambda>counts m. obj_set counts (name m) (Number 0)) Map.empty
        (moodList st) (name m) = Some (Number 0)"
      by (simp add: counts_init)
    with counts_entries [of "name m"
        "foldl (\<lambda>counts m. obj_set counts (name m) (Number 0)) Map.empty (moodList st)" 0
        "entries st"] False
    have "updateChart_counts st (name m) =
        Some (Number (length (filter (\<lambda>e. mood e = name m) (entries st))))"
      by (simp add: updateChart_counts_def)
    with False show ?thesis by (simp add: obj_get_def)
  qed
  then show ?thesis by (simp add: updateChart_def)
qed

lemma sum_indicator_distinct:
  "distinct (map key xs) \<Longrightarrow>
   (\<Sum>x\<leftarrow>xs. if key x = k then 1 else 0) = (if k \<in> key ` set xs then 1 else (0::nat))"
  by (induction xs) (auto simp: image_iff)

lemma sum_counts_distinct:
  assumes "distinct (map key xs)"
  shows "(\<Sum>x\<leftarrow>xs. length (filter (\<lambda>e. f e = key x) es)) =
         length (filter (\<lambda>e. f e \<in> key ` set xs) es)"
proof (induction es)
  case Nil
  show ?case by simp
next
  case (Cons e es)
  have "(\<Sum>x\<leftarrow>xs. length (filter (\<lambda>e. f e = key x) (e # es))) =
        (\<Sum>x\<leftarrow>xs. (if key x = f e then 1 else 0) + length (filter (\<lambda>e. f e = key x) es))"
    by (rule arg_cong [where f = sum_list]) auto
  also have "\<dots> = (\<Sum>x\<leftarrow>xs. if key x = f e then 1 else 0) +
        (\<Sum>x\<leftarrow>xs. length (filter (\<lambda>e. f e = key x) es))"
    by (simp add: sum_list_addf)
  also have "\<dots> = (if f e \<in> key ` set xs then 1 else 0) +
        length (filter (\<lambda>e. f e \<in> key ` set xs) es)"
    by (simp add: sum_indicator_distinct [OF assms] Cons.IH)
  finally show ?case by simp
qed

text \<open>
  The mood-count projection on a registry that has no mood named \<^verbatim>\<open>__proto__\<close>: each
  mood, in registry order, gets the number of entries with its name (0 when there is
  none), the counts add up to the number of entries whose mood is in the registry, and
  an entry whose mood is not in the registry adds to no count.
\<close>

lemma updateChart_counts_moods:
  assumes "registryInv (moodList st)" and "''__proto__'' \<notin> name ` set (moodList st)"
  shows "updateChart st =
           map (\<lambda>m. Number (length (filter (\<lambda>e. mood e = name m) (entries st)))) (moodList st)"
    and "(\<Sum>m\<leftarrow>moodList st. length (filter (\<lambda>e. mood e = name m) (entries st))) =
           length (filter (\<lambda>e. mood e \<in> name ` set (moodList st)) (entries st))"
proof -
  from assms(2) have "\<forall>m \<in> set (moodList st). name m \<noteq> ''__proto__''"
    by (metis rev_image_eqI)
  then show "updateChart st =
           map (\<lambda>m. Number (length (filter (\<lambda>e. mood e = name m) (entries st)))) (moodList st)"
    by (simp add: updateChart_values)
  from assms(1) have "distinct (map name (moodList st))"
    by (simp add: registryInv_def)
  then show "(\<Sum>m\<leftarrow>moodList st. length (filter (\<lambda>e. mood e = name m) (entries st))) =
           length (filter (\<lambda>e. mood e \<in> name ` set (moodList st)) (entries st))"
    by (rule sum_counts_distinct)
qed

lemma protoState_fields:
  "entries protoState = diary"
  "moodList protoState =
     defaultMoodList @ [\<lparr>name = ''__proto__'', icon = ''fa-heart'', color = ''#ffb74d''\<rparr>]"
proof -
  have low: "toLowerCase demoBrowser ''__proto__'' = ''__proto__''"
    "toLowerCase demoBrowser ''Happy'' = ''happy''" "toLowerCase demoBrowser ''Sad'' = ''sad''"
    "toLowerCase demoBrowser ''Angry'' = ''angry''"
    "toLowerCase demoBrowser ''Excited'' = ''excited''"
    "toLowerCase demoBrowser ''Calm'' = ''calm''"
    by (simp_all add: demoBrowser_fields toLowerCaseASCII_examples)
  show "entries protoState = diary"
    by (simp add: protoState_def addCustomMood_def Let_def thenSave_fst_fields diaryState_fields
        split: option.splits)
  show "moodList protoState =
     defaultMoodList @ [\<lparr>name = ''__proto__'', icon = ''fa-heart'', color = ''#ffb74d''\<rparr>]"
    by (simp add: protoState_def addCustomMood_moodList diaryState_fields defaultMoodList_def low)
qed

text \<open>
  C3 (every registry mood gets, in registry order, the number of entries with its name,
  0 when there is none) fails on the code for a mood named \<^verbatim>\<open>__proto__\<close>, which
  \<open>addCustomMood\<close> accepts: \<^verbatim>\<open>counts['__proto__'] = 0\<close> stores nothing in the object
  literal, and the chart gets \<^verbatim>\<open>Object.prototype\<close> for that mood, where no entry has
  that mood and the count is 0. On every other registry the property holds (lemmas
  \<open>updateChart_values\<close> and \<open>updateChart_counts_moods\<close> above).
\<close>

theorem updateChart_proto_mood_not_counted:
  "map name (moodList protoState) =
     [''Happy'', ''Sad'', ''Angry'', ''Excited'', ''Calm'', ''__proto__''] \<and>
   length (filter (\<lambda>e. mood e = ''__proto__'') (entries protoState)) = 0 \<and>
   updateChart protoState = [Number 2, Number 2, Number 0, Number 0, Number 1, Inherited]"
  by (simp add: updateChart_values protoState_fields defaultMoodList_def diary_def)

section \<open>Word frequencies\<close>

lemma filter_bump_keep:
  "Q w \<Longrightarrow> filter (\<lambda>p. Q (fst p)) (bump w c f) = bump w c (filter (\<lambda>p. Q (fst p)) f)"
  by (induction f) auto

lemma filter_bump_drop:
  "\<not> Q w \<Longrightarrow> filter (\<lambda>p. Q (fst p)) (bump w c f) = filter (\<lambda>p. Q (fst p)) f"
  by (induction f) auto

text \<open>Counting with more stopwords gives the same map without the added stopwords.\<close>

lemma countWords_more_stopwords:
  assumes sub: "set S \<subseteq> set S'"
  shows "countWords S' ws (filter (\<lambda>p. fst p \<notin> set S') f) =
           filter (\<lambda>p. fst p \<notin> set S') (countWords S ws f)"
proof (induction ws arbitrary: f)
  case Nil
  show ?case by simp
next
  case (Cons w ws)
  let ?fresh = "if w \<in> set objectPrototypeKeys then FunctionText 1 else Count 1"
  consider (stop) "w \<in> set S" | (proto) "w \<notin> set S" "w = ''__proto__''"
    | (extra) "w \<notin> set S" "w \<noteq> ''__proto__''" "w \<in> set S'"
    | (word) "w \<noteq> ''__proto__''" "w \<notin> set S'"
    by blast
  then show ?case
  proof cases
    case stop
    with sub have "w \<in> set S'" by blast
    with stop Cons show ?thesis by simp
  next
    case proto
    with Cons show ?thesis by simp
  next
    case extra
    with Cons [of "bump w ?fresh f"] show ?thesis
      by (simp add: filter_bump_drop [of "\<lambda>k. k \<notin> set S'"])
  next
    case word
    with sub have "w \<notin> set S" by blast
    with word Cons [of "bump w ?fresh f"] show ?thesis
      by (simp add: filter_bump_keep [of "\<lambda>k. k \<notin> set S'"])
  qed
qed

lemma countEntries_more_stopwords:
  assumes sub: "set S \<subseteq> set S'"
  shows "countEntries b S' es (filter (\<lambda>p. fst p \<notin> set S') f) =
           filter (\<lambda>p. fst p \<notin> set S') (countEntries b S es f)"
proof (induction es arbitrary: f)
  case Nil
  show ?case by simp
next
  case (Cons e es)
  show ?case
    by (simp add: countWords_more_stopwords [OF sub] Cons)
qed

lemma wordCloudStopwords_extra:
  "wordCloudStopwords = trendingStopwords @ [''had'', ''have'', ''has'', ''you'', ''we'']"
  by (simp add: trendingStopwords_def wordCloudStopwords_def)

lemma stopwords_subset: "set trendingStopwords \<subseteq> set wordCloudStopwords"
  by (simp only: wordCloudStopwords_extra set_append) blast

text \<open>The map of the word cloud is the map of the trending view without the words that
  are stopwords of the cloud only.\<close>

lemma wordCloud_counts_from_trending:
  "countEntries b wordCloudStopwords es [] =
     filter (\<lambda>p. fst p \<notin> set wordCloudStopwords) (countEntries b trendingStopwords es [])"
  using countEntries_more_stopwords [OF stopwords_subset, of b es "[]"] by simp

lemma countEntries_demoBrowser:
  "countEntries demoBrowser S es f =
     foldl (\<lambda>f e. countWords S (matchWords (toLowerCaseASCII (entryText e))) f) f es"
  by (induction es arbitrary: f) (simp_all add: demoBrowser_fields)

lemma diary_trending_counts:
  "countEntries demoBrowser trendingStopwords diary [] =
     [(''sunny'', Count 1), (''morning'', Count 1), (''run'', Count 1), (''have'', Count 1),
      (''fun'', Count 1), (''rain'', Count 1), (''again'', Count 1), (''missed'', Count 1),
      (''bus'', Count 1), (''walked'', Count 1), (''outside'', Count 1)]"
  unfolding countEntries_demoBrowser by code_simp

lemma diary_cloud_counts:
  "countEntries demoBrowser wordCloudStopwords diary [] =
     [(''sunny'', Count 1), (''morning'', Count 1), (''run'', Count 1), (''fun'', Count 1),
      (''rain'', Count 1), (''again'', Count 1), (''missed'', Count 1), (''bus'', Count 1),
      (''walked'', Count 1), (''outside'', Count 1)]"
  unfolding countEntries_demoBrowser by code_simp

text \<open>
  C2 (the trending view and the word cloud are the top 5 and the top 20 of one and the
  same word count map, made with a single stopword set) fails on the code: each
  function counts with a stopword set of its own, and the set of the word cloud has
  \<^verbatim>\<open>had\<close>, \<^verbatim>\<open>have\<close>, \<^verbatim>\<open>has\<close>, \<^verbatim>\<open>you\<close> and \<^verbatim>\<open>we\<close> besides. On the diary, where one entry
  reads \<^verbatim>\<open>I have fun\<close>, the trending view shows \<^verbatim>\<open>have\<close> among its five words; the
  word cloud has room for twenty words and shows ten, \<^verbatim>\<open>have\<close> not among them, so
  the five trending words are not the first five of the cloud, and the two maps
  differ.
\<close>

theorem trending_and_cloud_differ_on_have:
  "updateTrending demoBrowser diaryState =
     [(''sunny'', Count 1), (''morning'', Count 1), (''run'', Count 1), (''have'', Count 1),
      (''fun'', Count 1)] \<and>
   updateWordCloud demoBrowser diaryState =
     [(''sunny'', Count 1), (''morning'', Count 1), (''run'', Count 1), (''fun'', Count 1),
      (''rain'', Count 1), (''again'', Count 1), (''missed'', Count 1), (''bus'', Count 1),
      (''walked'', Count 1), (''outside'', Count 1)] \<and>
   updateTrending demoBrowser diaryState \<noteq> take 5 (updateWordCloud demoBrowser diaryState) \<and>
   countEntries demoBrowser trendingStopwords (entries diaryState) [] \<noteq>
     countEntries demoBrowser wordCloudStopwords (entries diaryState) []"
  by (simp add: updateTrending_def updateWordCloud_def diaryState_fields
      diary_trending_counts diary_cloud_counts byCount_def)

section \<open>The calendar\<close>

lemma remdups_snoc: "remdups (zs @ [x]) = remdups (filter (\<lambda>y. y \<noteq> x) zs) @ [x]"
  by (induction zs) auto

lemma filterUnseen_first_seen:
  "filterUnseen (\<lambda>x. x) seen xs = rev (remdups (rev (filter (\<lambda>x. x \<notin> seen) xs)))"
proof (induction xs arbitrary: seen)
  case Nil
  show ?case by simp
next
  case (Cons x xs)
  show ?case
  proof (cases "x \<in> seen")
    case True
    with Cons show ?thesis by simp
  next
    case False
    have "filter (\<lambda>y. y \<noteq> x) (rev (filter (\<lambda>y. y \<notin> seen) xs)) =
        rev (filter (\<lambda>y. y \<notin> insert x seen) xs)"
      by (simp add: rev_filter [symmetric] conj_commute)
    then have "rev (remdups (rev (filter (\<lambda>y. y \<notin> seen) (x # xs)))) =
        x # rev (remdups (rev (filter (\<lambda>y. y \<notin> insert x seen) xs)))"
      using False by (simp add: remdups_snoc)
    with Cons [of "insert x seen"] False show ?thesis by simp
  qed
qed

lemma length_concat_le:
  "(\<And>x. length (g x) \<le> 1) \<Longrightarrow> length (concat (map g xs)) \<le> length xs"
proof (induction xs)
  case Nil
  show ?case by simp
next
  case (Cons x xs)
  from Cons.prems [of x] Cons.IH [OF Cons.prems] show ?case by simp
qed

lemma generateMixtureFeelingForDate_nonempty:
  "fst (generateMixtureFeelingForDate b d st) = Some f \<Longrightarrow> f \<noteq> []"
  by (auto simp: generateMixtureFeelingForDate_def Let_def split: if_splits option.splits)

lemma updateCalendar_cell_fields:
  fixes b dateKey st
  defines "day \<equiv> filter (\<lambda>e. toDateString b (timestamp e) = toDateString b dateKey) (entries st)"
  defines "c \<equiv> fst (updateCalendar_cell b dateKey st)"
  shows "uniqueMoods c = filterUnseen (\<lambda>x. x) {} (map mood day)"
    and "dayCount c = length day"
    and "dots c = concat (map (\<lambda>n. case find (\<lambda>m. name m = n) (moodList st) of
                                     None \<Rightarrow> [] | Some m \<Rightarrow> [color m])
                     (take 3 (uniqueMoods c)))"
    and "(feelingText c \<noteq> None) = (4 \<le> length day)"
    and "4 \<le> length day \<Longrightarrow> feelingText c =
           Some (case fst (generateMixtureFeelingForDate b (toDateString b dateKey) st) of
                   None \<Rightarrow> ''Mixed feelings: '' @ join '', '' (uniqueMoods c)
                 | Some f \<Rightarrow> f)"
proof -
  let ?g = "fst (generateMixtureFeelingForDate b (toDateString b dateKey) st)"
  have ne: "(case ?g of None \<Rightarrow> ''Mixed feelings: '' @ join '', '' u | Some f \<Rightarrow> f) \<noteq> []"
    for u
    using generateMixtureFeelingForDate_nonempty [of b "toDateString b dateKey" st]
    by (cases ?g) simp_all
  have cell: "c =
      \<lparr>uniqueMoods = filterUnseen (\<lambda>x. x) {} (map mood day),
       dayCount = length day,
       dots = concat (map (\<lambda>n. case find (\<lambda>m. name m = n) (moodList st) of
                                     None \<Rightarrow> [] | Some m \<Rightarrow> [color m])
                     (take 3 (filterUnseen (\<lambda>x. x) {} (map mood day)))),
       feelingText =
         (if 4 \<le> length day
          then Some (case ?g of
                       None \<Rightarrow> ''Mixed feelings: '' @
                                 join '', '' (filterUnseen (\<lambda>x. x) {} (map mood day))
                     | Some f \<Rightarrow> f)
          else None)\<rparr>"
    unfolding c_def day_def using ne
    by (simp add: updateCalendar_cell_def Let_def case_prod_beta)
  show "uniqueMoods c = filterUnseen (\<lambda>x. x) {} (map mood day)"
    by (simp add: cell)
  show "dayCount c = length day"
    by (simp add: cell)
  show "dots c = concat (map (\<lambda>n. case find (\<lambda>m. name m = n) (moodList st) of
                                     None \<Rightarrow> [] | Some m \<Rightarrow> [color m])
                     (take 3 (uniqueMoods c)))"
    by (simp add: cell)
  show "(feelingText c \<noteq> None) = (4 \<le> length day)"
    by (simp add: cell)
  show "4 \<le> length day \<Longrightarrow> feelingText c =
           Some (case fst (generateMixtureFeelingForDate b (toDateString b dateKey) st) of
                   None \<Rightarrow> ''Mixed feelings: '' @ join '', '' (uniqueMoods c)
                 | Some f \<Rightarrow> f)"
    by (simp add: cell cong: option.case_cong)
qed

text \<open>
  C6: for every day (the date \<open>dateKey\<close> of a cell) the cell takes the entries whose
  timestamp has the date string of that day, whatever their time. Its unique moods are
  the moods of those entries without repetition, each at the place of its first
  occurrence; its dots are the colours of the first three unique moods that the
  registry has, in that order, so at most three; and the cell gets a mixture caption
  exactly when the day has at least four entries, however many unique moods there are.
  A day whose entries have the moods Happy, Happy, Sad, Calm has three unique moods and
  gets the caption.
\<close>

theorem updateCalendar_cell_grouping:
  fixes b dateKey st
  defines "day \<equiv> filter (\<lambda>e. toDateString b (timestamp e) = toDateString b dateKey) (entries st)"
  defines "c \<equiv> fst (updateCalendar_cell b dateKey st)"
  shows "uniqueMoods c = rev (remdups (rev (map mood day))) \<and>
         distinct (uniqueMoods c) \<and>
         set (uniqueMoods c) = mood ` set day \<and>
         dots c = concat (map (\<lambda>n. case find (\<lambda>m. name m = n) (moodList st) of
                                        None \<Rightarrow> [] | Some m \<Rightarrow> [color m])
                        (take 3 (uniqueMoods c))) \<and>
         length (dots c) \<le> 3 \<and>
         dayCount c = length day \<and>
         (feelingText c \<noteq> None) = (4 \<le> length day) \<and>
         (map mood day = [''Happy'', ''Happy'', ''Sad'', ''Calm''] \<longrightarrow>
            uniqueMoods c = [''Happy'', ''Sad'', ''Calm''] \<and> feelingText c \<noteq> None)"
proof -
  note f = updateCalendar_cell_fields [of b dateKey st, folded day_def c_def]
  have u: "uniqueMoods c = rev (remdups (rev (map mood day)))"
    by (simp add: f(1) filterUnseen_first_seen)
  have d: "distinct (uniqueMoods c)"
    using filterUnseen_distinct [of "\<lambda>x. x" "{}" "map mood day"] by (simp add: f(1))
  have s: "set (uniqueMoods c) = mood ` set day"
    by (simp add: u)
  have "length (concat (map (\<lambda>n. case find (\<lambda>m. name m = n) (moodList st) of
                                        None \<Rightarrow> [] | Some m \<Rightarrow> [color m])
                        (take 3 (uniqueMoods c)))) \<le> length (take 3 (uniqueMoods c))"
    by (rule length_concat_le) (simp split: option.splits)
  then have l: "length (dots c) \<le> 3"
    by (simp add: f(3) [symmetric])
  have e: "map mood day = [''Happy'', ''Happy'', ''Sad'', ''Calm''] \<longrightarrow>
            uniqueMoods c = [''Happy'', ''Sad'', ''Calm''] \<and> feelingText c \<noteq> None"
  proof
    assume m: "map mood day = [''Happy'', ''Happy'', ''Sad'', ''Calm'']"
    then have "length (map mood day) = 4" by simp
    then have "4 \<le> length day" by simp
    with f(4) have "feelingText c \<noteq> None" by simp
    moreover from m have "uniqueMoods c = [''Happy'', ''Sad'', ''Calm'']"
      by (simp add: f(1))
    ultimately show "uniqueMoods c = [''Happy'', ''Sad'', ''Calm''] \<and> feelingText c \<noteq> None"
      by simp
  qed
  from u d s f(3) l f(2) f(4) e show ?thesis by blast
qed

lemma diary_days:
  "filter (\<lambda>e. toDateString demoBrowser (timestamp e) = toDateString demoBrowser 0) diary =
     [\<lparr>mood = ''Happy'', entryText = ''Sunny morning run'', timestamp = 3600000\<rparr>,
      \<lparr>mood = ''Happy'', entryText = ''I have fun'', timestamp = 7200000\<rparr>,
      \<lparr>mood = ''Sad'', entryText = ''Missed the bus'', timestamp = 10800000\<rparr>,
      \<lparr>mood = ''Calm'', entryText = ''Walked outside'', timestamp = 14400000\<rparr>]"
  "filter (\<lambda>e. toDateString demoBrowser (timestamp e) = toDateString demoBrowser 86400000) diary =
     [\<lparr>mood = ''Sad'', entryText = ''Rain again today'', timestamp = 90000000\<rparr>]"
  by (simp_all add: diary_def demoBrowser_fields)

theorem updateCalendar_cell_grouping_witness:
  "uniqueMoods (fst (updateCalendar_cell demoBrowser 0 diaryState)) = [''Happy'', ''Sad'', ''Calm''] \<and>
   dayCount (fst (updateCalendar_cell demoBrowser 0 diaryState)) = 4 \<and>
   dots (fst (updateCalendar_cell demoBrowser 0 diaryState)) = [''#6c63ff'', ''#f77754'', ''#55c57a''] \<and>
   feelingText (fst (updateCalendar_cell demoBrowser 0 diaryState)) \<noteq> None \<and>
   dayCount (fst (updateCalendar_cell demoBrowser 86400000 diaryState)) = 1 \<and>
   feelingText (fst (updateCalendar_cell demoBrowser 86400000 diaryState)) = None"
proof -
  let ?c = "fst (updateCalendar_cell demoBrowser 0 diaryState)"
  let ?c' = "fst (updateCalendar_cell demoBrowser 86400000 diaryState)"
  note a = updateCalendar_cell_grouping [of demoBrowser 0 diaryState,
      unfolded diaryState_fields diary_days]
  note a' = updateCalendar_cell_grouping [of demoBrowser 86400000 diaryState,
      unfolded diaryState_fields diary_days]
  from a have u: "uniqueMoods ?c = [''Happy'', ''Sad'', ''Calm'']" by simp
  from a have n: "dayCount ?c = 4" by simp
  from a have t: "feelingText ?c \<noteq> None" by simp
  from a have "dots ?c = concat (map (\<lambda>n. case find (\<lambda>m. name m = n) defaultMoodList of
                                        None \<Rightarrow> [] | Some m \<Rightarrow> [color m])
                        (take 3 (uniqueMoods ?c)))"
    by blast
  then have d: "dots ?c = [''#6c63ff'', ''#f77754'', ''#55c57a'']"
    by (simp add: u defaultMoodList_def)
  from a' have n': "dayCount ?c' = 1" by simp
  from a' have "(feelingText ?c' \<noteq> None) = (4 \<le> (1::nat))" by simp
  then have t': "feelingText ?c' = None" by simp
  from u n d t n' t' show ?thesis by blast
qed

end
